theory Spec2Isabelle
  imports Complex_Main "HOL-Library.AList"
begin

section \<open>JavaScript values\<close>

text \<open>
  The records of the application are plain JavaScript objects that travel through
  \<^verbatim>\<open>JSON.stringify\<close> and \<^verbatim>\<open>JSON.parse\<close>. A value is modelled as a JSON tree.
  A number is kept as its canonical decimal text (what \<^verbatim>\<open>String(n)\<close> yields, so zero is
  \<open>''0''\<close>): the code only compares numbers with \<^verbatim>\<open>===\<close>, tests them for
  truthiness and interpolates them into template literals. A string is a list of 8-bit
  characters. \<^verbatim>\<open>undefined\<close> is \<open>None\<close> of \<open>json option\<close>.
\<close>

datatype json =
    JNull
  | JBool bool
  | JNum string
  | JStr string
  | JArr "json list"
  | JObj "(string \<times> json) list"

datatype error =
    TypeError string
  | SyntaxError string
  | Error string

fun message :: "error \<Rightarrow> string" where
  "message (TypeError m) = m"
| "message (SyntaxError m) = m"
| "message (Error m) = m"

text \<open>Property read \<^verbatim>\<open>v.k\<close> for the property names the code uses (\<^verbatim>\<open>id\<close>,
  \<^verbatim>\<open>name\<close>, \<^verbatim>\<open>qrCodes\<close>): it throws on \<^verbatim>\<open>null\<close>, finds nothing on a
  primitive or an array, and looks the key up in an object.\<close>

fun get_prop :: "json \<Rightarrow> string \<Rightarrow> error + json option" where
  "get_prop JNull k = Inl (TypeError (''Cannot read properties of null (reading '' @ k @ '')''))"
| "get_prop (JObj kvs) k = Inr (map_of kvs k)"
| "get_prop v k = Inr None"

text \<open>\<^verbatim>\<open>!v\<close>: the falsy values are \<^verbatim>\<open>undefined\<close>, \<^verbatim>\<open>null\<close>, \<^verbatim>\<open>false\<close>,
  \<^verbatim>\<open>0\<close> and the empty string.\<close>

fun falsy :: "json option \<Rightarrow> bool" where
  "falsy None = True"
| "falsy (Some JNull) = True"
| "falsy (Some (JBool b)) = (\<not> b)"
| "falsy (Some (JNum n)) = (n = ''0'')"
| "falsy (Some (JStr s)) = (s = [])"
| "falsy (Some (JArr xs)) = False"
| "falsy (Some (JObj kvs)) = False"

text \<open>\<^verbatim>\<open>a === b\<close>. Two objects or arrays are equal only when they are the same
  reference; the values compared in this program come from separate \<^verbatim>\<open>JSON.parse\<close>
  calls, so they never are.\<close>

fun strict_eq :: "json option \<Rightarrow> json option \<Rightarrow> bool" where
  "strict_eq None None = True"
| "strict_eq (Some JNull) (Some JNull) = True"
| "strict_eq (Some (JBool a)) (Some (JBool b)) = (a = b)"
| "strict_eq (Some (JNum a)) (Some (JNum b)) = (a = b)"
| "strict_eq (Some (JStr a)) (Some (JStr b)) = (a = b)"
| "strict_eq a b = False"

text \<open>The text a value becomes inside a template literal, \<^verbatim>\<open>`${v}`\<close>. Inside an
  array, \<^verbatim>\<open>null\<close> is rendered as the empty string.\<close>

fun join_with :: "string \<Rightarrow> string list \<Rightarrow> string" where
  "join_with sep [] = []"
| "join_with sep [x] = x"
| "join_with sep (x # y # ys) = x @ sep @ join_with sep (y # ys)"

fun to_text :: "json \<Rightarrow> string" where
  "to_text JNull = ''null''"
| "to_text (JBool b) = (if b then ''true'' else ''false'')"
| "to_text (JNum n) = n"
| "to_text (JStr s) = s"
| "to_text (JArr xs) = join_with '','' (map (\<lambda>x. if x = JNull then [] else to_text x) xs)"
| "to_text (JObj kvs) = ''[object Object]''"

fun template :: "json option \<Rightarrow> string" where
  "template None = ''undefined''"
| "template (Some v) = to_text v"

section \<open>Texts and local storage\<close>

text \<open>
  Local storage and the backup file hold text. A text is kept up to what
  \<^verbatim>\<open>JSON.parse\<close> makes of it: \<open>JsonText v\<close> is a text that parses to \<open>v\<close>
  (\<^verbatim>\<open>JSON.stringify(v)\<close> is one), \<open>PlainText s\<close> is a text \<open>s\<close> that is not JSON, such as
  the credential token or the empty string.
\<close>

datatype jstext = PlainText string | JsonText json

fun JSON_parse :: "jstext \<Rightarrow> error + json" where
  "JSON_parse (JsonText v) = Inr v"
| "JSON_parse (PlainText s) = Inl (SyntaxError ''Unexpected token in JSON'')"

definition JSON_stringify :: "json \<Rightarrow> jstext" where
  "JSON_stringify v = JsonText v"

fun truthy_text :: "jstext option \<Rightarrow> bool" where
  "truthy_text None = False"
| "truthy_text (Some (PlainText s)) = (s \<noteq> [])"
| "truthy_text (Some (JsonText v)) = True"

text \<open>\<^verbatim>\<open>localStorage\<close>: keys in the order \<^verbatim>\<open>localStorage.key(i)\<close> lists them.\<close>

type_synonym local_storage = "(string \<times> jstext) list"

definition getItem :: "local_storage \<Rightarrow> string \<Rightarrow> jstext option" where
  "getItem ls k = map_of ls k"

definition setItem :: "local_storage \<Rightarrow> string \<Rightarrow> jstext \<Rightarrow> local_storage" where
  "setItem ls k v = AList.update k v ls"

definition removeItem :: "local_storage \<Rightarrow> string \<Rightarrow> local_storage" where
  "removeItem ls k = AList.delete k ls"

fun startsWith :: "string \<Rightarrow> string \<Rightarrow> bool" where
  "startsWith s [] = True"
| "startsWith [] (p # ps) = False"
| "startsWith (c # cs) (p # ps) = (c = p \<and> startsWith cs ps)"

section \<open>Configuration (config.js)\<close>

definition LOCAL_STORAGE_PREFIX :: string where
  "LOCAL_STORAGE_PREFIX = ''pixelQR_''"

definition VERSION :: string where
  "VERSION = ''1.0.0''"

definition NOTIFICATION_DURATION :: nat where
  "NOTIFICATION_DURATION = 3000"

definition DEFAULT_MARGIN :: nat where
  "DEFAULT_MARGIN = 4"

section \<open>The persistence gateway (databaseManager.js)\<close>

text \<open>Calls to the notification manager are recorded in the order they are made.\<close>

datatype kind = Success | Failure | Info | Warning

type_synonym notice = "kind \<times> string"

record db =
  ACCESS_TOKEN :: "jstext option"
  storage :: local_storage
  notices :: "notice list"

definition notify :: "kind \<Rightarrow> string \<Rightarrow> db \<Rightarrow> db" where
  "notify k m st = st\<lparr>notices := notices st @ [(k, m)]\<rparr>"

definition saved_codes_key :: string where
  "saved_codes_key = LOCAL_STORAGE_PREFIX @ ''saved_codes''"

definition qrcode_prefix :: string where
  "qrcode_prefix = LOCAL_STORAGE_PREFIX @ ''qrcode_''"

definition token_key :: string where
  "token_key = LOCAL_STORAGE_PREFIX @ ''github_access_token''"

definition checkGitHubCredentials :: "db \<Rightarrow> db" where
  "checkGitHubCredentials st = st\<lparr>ACCESS_TOKEN := getItem (storage st) token_key\<rparr>"

definition isGitHubConnected :: "db \<Rightarrow> bool" where
  "isGitHubConnected st = truthy_text (ACCESS_TOKEN st)"

text \<open>\<open>suffix\<close> is the text of \<^verbatim>\<open>Math.random().toString(36).substr(2, 8)\<close>.\<close>

definition connectToGitHub :: "string \<Rightarrow> db \<Rightarrow> db \<times> bool" where
  "connectToGitHub suffix st =
     (let tok = PlainText (''simulated-github-token-'' @ suffix);
          st1 = st\<lparr>ACCESS_TOKEN := Some tok, storage := setItem (storage st) token_key tok\<rparr>
      in (notify Success ''Connected to GitHub database'' st1, True))"

definition disconnectFromGitHub :: "db \<Rightarrow> db" where
  "disconnectFromGitHub st =
     notify Info ''Disconnected from GitHub''
       (st\<lparr>ACCESS_TOKEN := None, storage := removeItem (storage st) token_key\<rparr>)"

text \<open>\<^verbatim>\<open>savedCodes.findIndex(code => code.id === qrData.id)\<close>: the callback throws on a
  \<^verbatim>\<open>null\<close> element it reaches.\<close>

fun findIndex_id :: "json list \<Rightarrow> json option \<Rightarrow> error + nat option" where
  "findIndex_id [] i = Inr None"
| "findIndex_id (code # codes) i =
     (case get_prop code ''id'' of
        Inl e \<Rightarrow> Inl e
      | Inr ci \<Rightarrow>
          if strict_eq ci i then Inr (Some 0)
          else (case findIndex_id codes i of
                  Inl e \<Rightarrow> Inl e
                | Inr None \<Rightarrow> Inr None
                | Inr (Some n) \<Rightarrow> Inr (Some (Suc n))))"

text \<open>\<^verbatim>\<open>savedCodes.filter(code => code.id !== qrId)\<close>.\<close>

fun filter_id :: "json list \<Rightarrow> json option \<Rightarrow> error + json list" where
  "filter_id [] i = Inr []"
| "filter_id (code # codes) i =
     (case get_prop code ''id'' of
        Inl e \<Rightarrow> Inl e
      | Inr ci \<Rightarrow>
          (case filter_id codes i of
             Inl e \<Rightarrow> Inl e
           | Inr rest \<Rightarrow> Inr (if strict_eq ci i then rest else code # rest)))"

text \<open>The list read back from the \<^verbatim>\<open>saved_codes\<close> text: a missing or empty text is the
  empty list; a text that is not JSON, or JSON that is not an array, makes the array
  method that follows throw.\<close>

definition parse_codes :: "jstext option \<Rightarrow> error + json list" where
  "parse_codes t =
     (case t of
        None \<Rightarrow> Inr []
      | Some existingCodes \<Rightarrow>
          if truthy_text (Some existingCodes) then
            (case JSON_parse existingCodes of
               Inl e \<Rightarrow> Inl e
             | Inr (JArr xs) \<Rightarrow> Inr xs
             | Inr JNull \<Rightarrow> Inl (TypeError ''Cannot read properties of null'')
             | Inr v \<Rightarrow> Inl (TypeError ''savedCodes is not an array''))
          else Inr [])"

text \<open>The body of the \<^verbatim>\<open>try\<close> block of \<^verbatim>\<open>saveQRCodeToLocalStorage\<close>: the storage it has
  reached, and the error when a statement throws. The write of the individual slot
  comes first and stays when a later statement throws.\<close>

definition save_local_body :: "local_storage \<Rightarrow> json \<Rightarrow> local_storage \<times> (error + unit)" where
  "save_local_body ls qrData =
     (case get_prop qrData ''id'' of
        Inl e \<Rightarrow> (ls, Inl e)
      | Inr qid \<Rightarrow>
          let storageKey = qrcode_prefix @ template qid;
              ls1 = setItem ls storageKey (JSON_stringify qrData)
          in (case parse_codes (getItem ls1 saved_codes_key) of
                Inl e \<Rightarrow> (ls1, Inl e)
              | Inr savedCodes \<Rightarrow>
                  (case findIndex_id savedCodes qid of
                     Inl e \<Rightarrow> (ls1, Inl e)
                   | Inr existingIndex \<Rightarrow>
                       let savedCodes' =
                             (case existingIndex of
                                Some n \<Rightarrow> savedCodes[n := qrData]
                              | None \<Rightarrow> savedCodes @ [qrData])
                       in (setItem ls1 saved_codes_key (JSON_stringify (JArr savedCodes')),
                           Inr ()))))"

definition name_of :: "json \<Rightarrow> string" where
  "name_of qrData = (case get_prop qrData ''name'' of Inl e \<Rightarrow> [] | Inr n \<Rightarrow> template n)"

definition saveQRCodeToLocalStorage :: "db \<Rightarrow> json \<Rightarrow> db \<times> bool" where
  "saveQRCodeToLocalStorage st qrData =
     (case save_local_body (storage st) qrData of
        (ls, Inr u) \<Rightarrow>
          (notify Success (''QR code \"'' @ name_of qrData @ ''\" saved locally'')
             (st\<lparr>storage := ls\<rparr>), True)
      | (ls, Inl e) \<Rightarrow>
          (notify Failure (''Error saving QR code: '' @ message e) (st\<lparr>storage := ls\<rparr>),
           False))"

text \<open>The \<^verbatim>\<open>try\<close> block of \<^verbatim>\<open>saveQRCodeToDatabase\<close>. The remote write itself is a
  timer that always completes; the block throws when \<^verbatim>\<open>qrData.name.replace\<close> is not
  callable, that is when the name is not a string.\<close>

definition remote_write :: "json \<Rightarrow> error + unit" where
  "remote_write qrData =
     (case get_prop qrData ''name'' of
        Inl e \<Rightarrow> Inl e
      | Inr (Some (JStr n)) \<Rightarrow>
          (case get_prop qrData ''id'' of Inl e \<Rightarrow> Inl e | Inr i \<Rightarrow> Inr ())
      | Inr (Some JNull) \<Rightarrow> Inl (TypeError ''Cannot read properties of null (reading replace)'')
      | Inr None \<Rightarrow> Inl (TypeError ''Cannot read properties of undefined (reading replace)'')
      | Inr (Some v) \<Rightarrow> Inl (TypeError ''qrData.name.replace is not a function''))"

definition saveQRCodeToDatabase :: "db \<Rightarrow> json \<Rightarrow> db \<times> bool" where
  "saveQRCodeToDatabase st qrData =
     (if \<not> truthy_text (ACCESS_TOKEN st) then saveQRCodeToLocalStorage st qrData
      else
        (case remote_write qrData of
           Inr u \<Rightarrow>
             (notify Success (''QR code \"'' @ name_of qrData @ ''\" saved to GitHub'') st, True)
         | Inl e \<Rightarrow>
             saveQRCodeToLocalStorage
               (notify Failure (''Error saving to GitHub: '' @ message e) st) qrData))"

text \<open>The \<^verbatim>\<open>try\<close> block of \<^verbatim>\<open>deleteQRCodeFromLocalStorage\<close>. The list is written back
  only when the \<^verbatim>\<open>saved_codes\<close> text is truthy.\<close>

definition delete_local_body :: "local_storage \<Rightarrow> json option \<Rightarrow> local_storage \<times> (error + unit)" where
  "delete_local_body ls qrId =
     (let storageKey = qrcode_prefix @ template qrId;
          ls1 = removeItem ls storageKey
      in (case getItem ls1 saved_codes_key of
            None \<Rightarrow> (ls1, Inr ())
          | Some existingCodes \<Rightarrow>
              if truthy_text (Some existingCodes) then
                (case parse_codes (Some existingCodes) of
                   Inl e \<Rightarrow> (ls1, Inl e)
                 | Inr savedCodes \<Rightarrow>
                     (case filter_id savedCodes qrId of
                        Inl e \<Rightarrow> (ls1, Inl e)
                      | Inr filteredCodes \<Rightarrow>
                          (setItem ls1 saved_codes_key (JSON_stringify (JArr filteredCodes)),
                           Inr ())))
              else (ls1, Inr ())))"

definition deleteQRCodeFromLocalStorage :: "db \<Rightarrow> json option \<Rightarrow> db \<times> bool" where
  "deleteQRCodeFromLocalStorage st qrId =
     (case delete_local_body (storage st) qrId of
        (ls, Inr u) \<Rightarrow>
          (notify Success ''QR code deleted from local storage'' (st\<lparr>storage := ls\<rparr>), True)
      | (ls, Inl e) \<Rightarrow>
          (notify Failure (''Error deleting QR code: '' @ message e) (st\<lparr>storage := ls\<rparr>),
           False))"

text \<open>The remote deletion is a timer that always completes, so the \<^verbatim>\<open>catch\<close> branch
  of \<^verbatim>\<open>deleteQRCodeFromDatabase\<close> is never entered.\<close>

definition deleteQRCodeFromDatabase :: "db \<Rightarrow> json option \<Rightarrow> db \<times> bool" where
  "deleteQRCodeFromDatabase st qrId =
     (if \<not> truthy_text (ACCESS_TOKEN st) then deleteQRCodeFromLocalStorage st qrId
      else (notify Success ''QR code deleted from GitHub'' st, True))"

text \<open>Decimal text of a count, for the messages.\<close>

definition digit_char :: "nat \<Rightarrow> char" where
  "digit_char d = ''0123456789'' ! d"

fun nat_text :: "nat \<Rightarrow> string" where
  "nat_text n = (if n < 10 then [digit_char n] else nat_text (n div 10) @ [digit_char (n mod 10)])"

declare nat_text.simps [simp del]

text \<open>The loop of \<^verbatim>\<open>exportAllQRCodes\<close> over the keys of local storage: every key that
  starts with the slot prefix has its text parsed and pushed (\<^verbatim>\<open>JSON.parse(null)\<close> is
  \<^verbatim>\<open>null\<close>).\<close>

fun collect_codes :: "local_storage \<Rightarrow> string list \<Rightarrow> error + json list" where
  "collect_codes ls [] = Inr []"
| "collect_codes ls (key # keys) =
     (if key \<noteq> [] \<and> startsWith key qrcode_prefix then
        (case (case getItem ls key of None \<Rightarrow> Inr JNull | Some t \<Rightarrow> JSON_parse t) of
           Inl e \<Rightarrow> Inl e
         | Inr qrData \<Rightarrow>
             (case collect_codes ls keys of
                Inl e \<Rightarrow> Inl e
              | Inr rest \<Rightarrow> Inr (qrData # rest)))
      else collect_codes ls keys)"

text \<open>\<open>now\<close> is the text of \<^verbatim>\<open>new Date().toISOString()\<close>. The second component is the
  text of the downloaded file, when one is produced.\<close>

definition exportAllQRCodes :: "string \<Rightarrow> db \<Rightarrow> db \<times> jstext option \<times> bool" where
  "exportAllQRCodes now st =
     (case collect_codes (storage st) (map fst (storage st)) of
        Inl e \<Rightarrow> (notify Failure (''Error exporting QR codes: '' @ message e) st, None, False)
      | Inr allQRCodes \<Rightarrow>
          (let exportData = JObj [(''version'', JStr VERSION),
                                  (''exportDate'', JStr now),
                                  (''qrCodes'', JArr allQRCodes)]
           in (notify Success (''Exported '' @ nat_text (length allQRCodes) @ '' QR codes'') st,
               Some (JSON_stringify exportData), True)))"

text \<open>\<^verbatim>\<open>qrData.id = Date.now() + Math.random()\<close> in strict mode: the property is set on
  an object, set but not serialised on an array, and the assignment throws on a
  primitive.\<close>

fun assign_id :: "json \<Rightarrow> json \<Rightarrow> error + json" where
  "assign_id (JObj kvs) v = Inr (JObj (AList.update ''id'' v kvs))"
| "assign_id (JArr xs) v = Inr (JArr xs)"
| "assign_id q v = Inl (TypeError ''Cannot create property id'')"

text \<open>The \<^verbatim>\<open>forEach\<close> of \<^verbatim>\<open>importQRCodesFromBackup\<close>. \<open>fresh i\<close> is the number that
  \<^verbatim>\<open>Date.now() + Math.random()\<close> yields at element \<open>i\<close> of the list. The writes made
  before an element throws stay.\<close>

fun import_each :: "(nat \<Rightarrow> string) \<Rightarrow> nat \<Rightarrow> local_storage \<Rightarrow> json list \<Rightarrow>
    local_storage \<times> (error + nat)" where
  "import_each fresh i ls [] = (ls, Inr 0)"
| "import_each fresh i ls (qrData # rest) =
     (case get_prop qrData ''id'' of
        Inl e \<Rightarrow> (ls, Inl e)
      | Inr qid \<Rightarrow>
          (case (if falsy qid
                 then (case assign_id qrData (JNum (fresh i)) of
                         Inl e \<Rightarrow> Inl e
                       | Inr q \<Rightarrow> Inr (q, Some (JNum (fresh i))))
                 else Inr (qrData, qid)) of
             Inl e \<Rightarrow> (ls, Inl e)
           | Inr (q, qid') \<Rightarrow>
               (let storageKey = qrcode_prefix @ template qid';
                    ls1 = setItem ls storageKey (JSON_stringify q)
                in (case import_each fresh (Suc i) ls1 rest of
                      (ls2, Inl e) \<Rightarrow> (ls2, Inl e)
                    | (ls2, Inr n) \<Rightarrow> (ls2, Inr (Suc n))))))"

datatype upload = Unreadable | Content jstext

text \<open>The \<^verbatim>\<open>try\<close> block of \<^verbatim>\<open>importQRCodesFromBackup\<close>.\<close>

definition import_body :: "(nat \<Rightarrow> string) \<Rightarrow> local_storage \<Rightarrow> upload \<Rightarrow>
    local_storage \<times> (error + nat)" where
  "import_body fresh ls file =
     (case file of
        Unreadable \<Rightarrow> (ls, Inl (Error ''undefined''))
      | Content fileContent \<Rightarrow>
          (case JSON_parse fileContent of
             Inl e \<Rightarrow> (ls, Inl e)
           | Inr importData \<Rightarrow>
               (case get_prop importData ''qrCodes'' of
                  Inl e \<Rightarrow> (ls, Inl e)
                | Inr qrCodes \<Rightarrow>
                    (case qrCodes of
                       Some (JArr xs) \<Rightarrow> import_each fresh 0 ls xs
                     | _ \<Rightarrow> (ls, Inl (Error ''Invalid backup file format''))))))"

definition importQRCodesFromBackup :: "(nat \<Rightarrow> string) \<Rightarrow> db \<Rightarrow> upload \<Rightarrow> db \<times> nat" where
  "importQRCodesFromBackup fresh st file =
     (case import_body fresh (storage st) file of
        (ls, Inr importedCount) \<Rightarrow>
          (notify Success (''Imported '' @ nat_text importedCount @ '' QR codes'')
             (st\<lparr>storage := ls\<rparr>), importedCount)
      | (ls, Inl e) \<Rightarrow>
          (notify Failure (''Error importing QR codes: '' @ message e) (st\<lparr>storage := ls\<rparr>), 0))"

section \<open>The generation orchestrator (main.js)\<close>

text \<open>White space as \<^verbatim>\<open>trim()\<close> and the class \<^verbatim>\<open>\s\<close> see it, among 8-bit
  characters: tab, line feed, vertical tab, form feed, carriage return, space and the
  no-break space. \<^verbatim>\<open>\w\<close> is a letter, a digit or the underscore.\<close>

definition is_space :: "char \<Rightarrow> bool" where
  "is_space c = (of_char c \<in> {9, 10, 11, 12, 13, 32, 160 :: nat})"

definition is_word :: "char \<Rightarrow> bool" where
  "is_word c =
     (let n = (of_char c :: nat)
      in (48 \<le> n \<and> n \<le> 57) \<or> (65 \<le> n \<and> n \<le> 90) \<or> (97 \<le> n \<and> n \<le> 122) \<or> n = 95)"

definition trim :: "string \<Rightarrow> string" where
  "trim s = rev (dropWhile is_space (rev (dropWhile is_space s)))"

text \<open>\<^verbatim>\<open>name.replace(/\s+/g, '_')\<close>: every maximal run of white space becomes one
  underscore.\<close>

function replace_space_runs :: "string \<Rightarrow> string" where
  "replace_space_runs [] = []"
| "replace_space_runs (c # cs) =
     (if is_space c then CHR ''_'' # replace_space_runs (dropWhile is_space cs)
      else c # replace_space_runs cs)"
  by pat_completeness auto
termination
  by (relation "measure length") (auto simp: length_dropWhile_le less_Suc_eq_le)

text \<open>\<open>now\<close> is the text of \<^verbatim>\<open>Date.now()\<close>.\<close>

definition generateQRName :: "string \<Rightarrow> string \<Rightarrow> string" where
  "generateQRName now content =
     (let maxLength = 30;
          name = (if length content > maxLength then take maxLength content @ ''...''
                  else content);
          name1 = filter (\<lambda>c. is_word c \<or> is_space c \<or> c = CHR ''-'') name;
          name2 = replace_space_runs name1
      in if name2 = [] then ''QR_Code_'' @ now else name2)"

text \<open>The object the encoding library returns: its module count and its dark test.\<close>

record qr_object =
  getModuleCount :: nat
  isDark :: "nat \<Rightarrow> nat \<Rightarrow> bool"

text \<open>A canvas: its size (an assignment to \<^verbatim>\<open>canvas.width\<close> truncates) and the
  \<^verbatim>\<open>fillRect\<close> calls in drawing order, each with its fill style. Arithmetic on
  doubles is idealised to rationals.\<close>

record canvas =
  width :: nat
  height :: nat
  fills :: "(string \<times> rat \<times> rat \<times> rat \<times> rat) list"

record qr_code =
  content :: string
  size :: nat
  errorCorrection :: string
  foregroundColor :: string
  backgroundColor :: string
  canvas_of :: canvas
  qr :: qr_object
  timestamp :: string

text \<open>The application: the form the user fills, the current code, the preview, the
  state of the buttons, the list shown, and the database manager with the storage
  and the log of notifications.\<close>

record app =
  content_input :: string
  size_select :: nat
  error_correction_select :: string
  foreground_color :: string
  background_color :: string
  currentQRCode :: "qr_code option"
  preview :: "canvas option"
  action_buttons_enabled :: bool
  generate_btn_disabled :: bool
  savedCodes :: "json list"
  databaseManager :: db

definition app_notify :: "kind \<Rightarrow> string \<Rightarrow> app \<Rightarrow> app" where
  "app_notify k m a = a\<lparr>databaseManager := notify k m (databaseManager a)\<rparr>"

definition Math_round :: "rat \<Rightarrow> rat" where
  "Math_round x = of_int \<lfloor>x + 1 / 2\<rfloor>"

definition Math_ceil :: "rat \<Rightarrow> rat" where
  "Math_ceil x = of_int \<lceil>x\<rceil>"

definition draw_modules :: "qr_object \<Rightarrow> string \<Rightarrow> rat \<Rightarrow> rat \<Rightarrow>
    (string \<times> rat \<times> rat \<times> rat \<times> rat) list" where
  "draw_modules q colour cellSize margin =
     concat (map (\<lambda>row. concat (map (\<lambda>col.
        if isDark q row col
        then [(colour, Math_round (of_nat col * cellSize) + margin,
               Math_round (of_nat row * cellSize) + margin,
               Math_ceil cellSize, Math_ceil cellSize)]
        else []) [0 ..< getModuleCount q])) [0 ..< getModuleCount q])"

text \<open>\<open>encoder\<close> is the encoding library (\<^verbatim>\<open>qrcode(0, level)\<close>, \<^verbatim>\<open>addData\<close>,
  \<^verbatim>\<open>make\<close>), which may throw; \<open>now\<close> is the text of
  \<^verbatim>\<open>new Date().toISOString()\<close>.\<close>

definition generateQRCode :: "(string \<Rightarrow> string \<Rightarrow> error + qr_object) \<Rightarrow> string \<Rightarrow> app \<Rightarrow> app" where
  "generateQRCode encoder now a =
     (let content = trim (content_input a)
      in if content = [] then
           app_notify Failure ''Please enter text or URL to generate QR code'' a
         else
           (let size = size_select a;
                errorCorrection = error_correction_select a;
                foregroundColor = foreground_color a;
                backgroundColor = background_color a;
                a1 = a\<lparr>generate_btn_disabled := True\<rparr>;
                a2 = (case encoder errorCorrection content of
                        Inl e \<Rightarrow> app_notify Failure (''Error generating QR code: '' @ message e) a1
                      | Inr q \<Rightarrow>
                          (let cellSize = of_nat size / of_nat (getModuleCount q);
                               margin = of_nat DEFAULT_MARGIN * cellSize;
                               side = nat \<lfloor>of_nat size + margin * 2\<rfloor>;
                               c = \<lparr>width = side, height = side,
                                    fills = (backgroundColor, 0, 0, of_nat side, of_nat side)
                                            # draw_modules q foregroundColor cellSize margin\<rparr>
                           in app_notify Success ''QR code generated successfully!''
                                (a1\<lparr>preview := Some c,
                                    currentQRCode := Some \<lparr>content = content, size = size,
                                      errorCorrection = errorCorrection,
                                      foregroundColor = foregroundColor,
                                      backgroundColor = backgroundColor,
                                      canvas_of = c, qr = q, timestamp = now\<rparr>,
                                    action_buttons_enabled := True\<rparr>)))
            in a2\<lparr>generate_btn_disabled := False\<rparr>))"

text \<open>The record \<^verbatim>\<open>saveQRCode\<close> builds from the current code; \<open>now\<close> is the text of
  \<^verbatim>\<open>Date.now()\<close>.\<close>

definition make_qrData :: "string \<Rightarrow> qr_code \<Rightarrow> json" where
  "make_qrData now c =
     JObj [(''id'', JNum now),
           (''content'', JStr (content c)),
           (''size'', JNum (nat_text (size c))),
           (''errorCorrection'', JStr (errorCorrection c)),
           (''foregroundColor'', JStr (foregroundColor c)),
           (''backgroundColor'', JStr (backgroundColor c)),
           (''timestamp'', JStr (timestamp c)),
           (''name'', JStr (generateQRName now (content c)))]"

text \<open>\<^verbatim>\<open>updateSavedCodesList\<close> sorts \<^verbatim>\<open>this.savedCodes\<close> in place with the comparator
  \<^verbatim>\<open>(a, b) => new Date(b.timestamp) - new Date(a.timestamp)\<close>, newest first. \<open>date v\<close>
  is the time value of \<^verbatim>\<open>new Date(v)\<close>, \<open>None\<close> for an invalid date; a difference that
  is not a number counts as zero. The sort is stable.\<close>

definition timestamp_of :: "json \<Rightarrow> json option" where
  "timestamp_of c = (case get_prop c ''timestamp'' of Inl e \<Rightarrow> None | Inr v \<Rightarrow> v)"

definition compare_dates :: "(json option \<Rightarrow> int option) \<Rightarrow> json \<Rightarrow> json \<Rightarrow> int" where
  "compare_dates date a b =
     (case (date (timestamp_of b), date (timestamp_of a)) of
        (Some tb, Some ta) \<Rightarrow> tb - ta
      | _ \<Rightarrow> 0)"

fun insert_code :: "(json option \<Rightarrow> int option) \<Rightarrow> json \<Rightarrow> json list \<Rightarrow> json list" where
  "insert_code date x [] = [x]"
| "insert_code date x (y # ys) =
     (if compare_dates date x y \<le> 0 then x # y # ys else y # insert_code date x ys)"

definition sort_codes :: "(json option \<Rightarrow> int option) \<Rightarrow> json list \<Rightarrow> json list" where
  "sort_codes date xs = foldr (insert_code date) xs []"

text \<open>The list is sorted and then rendered. Reading \<^verbatim>\<open>timestamp\<close> or \<^verbatim>\<open>id\<close> of a
  \<^verbatim>\<open>null\<close> element throws, in the comparator or in the rendering.\<close>

definition updateSavedCodesList :: "(json option \<Rightarrow> int option) \<Rightarrow> json list \<Rightarrow> error + json list" where
  "updateSavedCodesList date codes =
     (if codes = [] then Inr []
      else if JNull \<in> set codes then Inl (TypeError ''Cannot read properties of null'')
      else Inr (sort_codes date codes))"

text \<open>\<^verbatim>\<open>saveQRCode\<close>, with the continuation of the promise run to its end: whatever the
  manager returned, the record is pushed on the list shown and the list is sorted. When
  the update of the list throws, the \<^verbatim>\<open>catch\<close> callback reports it; the list is then
  left as pushed.\<close>

definition saveQRCode :: "(json option \<Rightarrow> int option) \<Rightarrow> string \<Rightarrow> app \<Rightarrow> app" where
  "saveQRCode date now a =
     (case currentQRCode a of
        None \<Rightarrow> app_notify Failure ''No QR code to save'' a
      | Some c \<Rightarrow>
          (let qrData = make_qrData now c;
               (st, ok) = saveQRCodeToDatabase (databaseManager a) qrData;
               pushed = savedCodes a @ [qrData]
           in (case updateSavedCodesList date pushed of
                 Inr shownCodes \<Rightarrow>
                   app_notify Success ''QR code saved to database!''
                     (a\<lparr>databaseManager := st, savedCodes := shownCodes\<rparr>)
               | Inl e \<Rightarrow>
                   app_notify Failure (''Error saving QR code: '' @ message e)
                     (a\<lparr>databaseManager := st, savedCodes := pushed\<rparr>))))"

text \<open>The index: the list \<^verbatim>\<open>saveQRCodeToLocalStorage\<close> reads back from the
  \<^verbatim>\<open>saved_codes\<close> text before it updates it.\<close>

definition saved_index :: "local_storage \<Rightarrow> error + json list" where
  "saved_index ls = parse_codes (getItem ls saved_codes_key)"

section \<open>The notification centre (NotificationManager)\<close>

text \<open>
  The manager lives in a browser: it creates elements, keeps a \<^verbatim>\<open>Map\<close> from
  notification ids to entries, and sets timers. The state below holds the children of
  the container, the map (in insertion order), the pending timers in the order they
  will fire, the clock in milliseconds, and the promises \<^verbatim>\<open>confirm\<close> has returned. An
  element that has left the container cannot come back and is dropped.

  A notification id is the number \<^verbatim>\<open>Date.now() + Math.random()\<close>, the key \<open>JNum n\<close>.
  The buttons are written into the markup as
  \<^verbatim>\<open>onclick="notificationManager.hide('${notificationId}')"\<close>: the quotes make the
  argument the string \<open>JStr n\<close>. \<^verbatim>\<open>Map.get\<close> compares keys without conversion.
\<close>

datatype button = CloseButton | YesButton | NoButton

record element =
  elem :: nat
  className :: string
  shown :: bool
  dataset_id :: string
  span_text :: string
  buttons :: "(button \<times> string) list"

record entry =
  element_of :: nat
  timeout :: "nat option"
  resolve :: "nat option"

datatype timer_action =
    AddShowClass nat
  | AutoHide json
  | RemoveElement nat json
  | AutoCancel json

record timer =
  handle :: nat
  due :: nat
  action :: timer_action

record nm =
  container :: "element list"
  notifications :: "(json \<times> entry) list"
  timers :: "timer list"
  next_timer :: nat
  next_element :: nat
  clock :: nat
  promises :: "bool option list"

definition defaultDuration :: nat where
  "defaultDuration = (if NOTIFICATION_DURATION \<noteq> 0 then NOTIFICATION_DURATION else 3000)"

text \<open>\<^verbatim>\<open>setTimeout(callback, delay)\<close>: the timer fires after those already due at that
  time or before. The handle is the next number.\<close>

fun enqueue :: "timer \<Rightarrow> timer list \<Rightarrow> timer list" where
  "enqueue t [] = [t]"
| "enqueue t (u # us) = (if due u \<le> due t then u # enqueue t us else t # u # us)"

definition setTimeout :: "timer_action \<Rightarrow> nat \<Rightarrow> nm \<Rightarrow> nm \<times> nat" where
  "setTimeout cb delay s =
     (s\<lparr>timers := enqueue \<lparr>handle = next_timer s, due = clock s + delay, action = cb\<rparr> (timers s),
        next_timer := Suc (next_timer s)\<rparr>,
      next_timer s)"

definition clearTimeout :: "nat \<Rightarrow> nm \<Rightarrow> nm" where
  "clearTimeout h s = s\<lparr>timers := filter (\<lambda>t. handle t \<noteq> h) (timers s)\<rparr>"

definition set_shown :: "nat \<Rightarrow> bool \<Rightarrow> nm \<Rightarrow> nm" where
  "set_shown el b s =
     s\<lparr>container := map (\<lambda>e. if elem e = el then e\<lparr>shown := b\<rparr> else e) (container s)\<rparr>"

text \<open>\<^verbatim>\<open>hide(notificationId)\<close>. A timer handle is truthy when it is not zero.\<close>

definition hide :: "nm \<Rightarrow> json \<Rightarrow> nm" where
  "hide s notificationId =
     (case map_of (notifications s) notificationId of
        None \<Rightarrow> s
      | Some notificationData \<Rightarrow>
          (let s1 = (case timeout notificationData of
                       None \<Rightarrow> s
                     | Some h \<Rightarrow> if h \<noteq> 0 then clearTimeout h s else s);
               s2 = set_shown (element_of notificationData) False s1
           in fst (setTimeout (RemoveElement (element_of notificationData) notificationId) 300 s2)))"

text \<open>The callback \<^verbatim>\<open>hide\<close> leaves behind: the element is removed when it still has a
  parent, and the id is deleted from the map.\<close>

definition remove_element :: "nat \<Rightarrow> json \<Rightarrow> nm \<Rightarrow> nm" where
  "remove_element el notificationId s =
     s\<lparr>container := filter (\<lambda>e. elem e \<noteq> el) (container s),
       notifications := AList.delete notificationId (notifications s)\<rparr>"

text \<open>\<^verbatim>\<open>show(message, type, duration)\<close>; \<open>n\<close> is the text of the number
  \<^verbatim>\<open>Date.now() + Math.random()\<close>. A duration of \<^verbatim>\<open>null\<close> or \<^verbatim>\<open>0\<close> is replaced by the
  default one.\<close>

definition "show" :: "string \<Rightarrow> string \<Rightarrow> nat option \<Rightarrow> string \<Rightarrow> nm \<Rightarrow> nm \<times> json" where
  "show msg type duration n s =
     (let notificationId = JNum n;
          durationMs = (case duration of
                          None \<Rightarrow> defaultDuration
                        | Some d \<Rightarrow> if d \<noteq> 0 then d else defaultDuration);
          el = next_element s;
          notification = \<lparr>elem = el, className = ''notification '' @ type, shown = False,
                          dataset_id = n, span_text = msg, buttons = [(CloseButton, n)]\<rparr>;
          s1 = s\<lparr>container := container s @ [notification], next_element := Suc el\<rparr>;
          s2 = s1\<lparr>notifications :=
                    AList.update notificationId
                      \<lparr>element_of = el, timeout = None, resolve = None\<rparr> (notifications s1)\<rparr>;
          (s3, h0) = setTimeout (AddShowClass el) 100 s2;
          (s4, h) = setTimeout (AutoHide notificationId) durationMs s3;
          s5 = (case map_of (notifications s4) notificationId of
                  None \<Rightarrow> s4
                | Some d \<Rightarrow>
                    s4\<lparr>notifications :=
                         AList.update notificationId (d\<lparr>timeout := Some h\<rparr>) (notifications s4)\<rparr>)
      in (s5, notificationId))"

definition success :: "string \<Rightarrow> string \<Rightarrow> nm \<Rightarrow> nm \<times> json" where
  "success msg n s = show msg ''success'' None n s"

definition error :: "string \<Rightarrow> string \<Rightarrow> nm \<Rightarrow> nm \<times> json" where
  "error msg n s = show msg ''error'' None n s"

text \<open>\<^verbatim>\<open>loading(message)\<close> returns an object of four closures over the id and the
  entry read at creation; here it is the pair of the id and the element of that entry,
  and the closures are the four functions that follow.\<close>

definition loading :: "string \<Rightarrow> string \<Rightarrow> nm \<Rightarrow> nm \<times> (json \<times> nat option)" where
  "loading msg n s =
     (let (s1, notificationId) = show msg ''info'' None n s;
          notificationData = map_of (notifications s1) notificationId
      in (s1, (notificationId, map_option element_of notificationData)))"

definition loading_update :: "json \<times> nat option \<Rightarrow> string \<Rightarrow> nm \<Rightarrow> nm" where
  "loading_update h newMessage s =
     (case snd h of
        None \<Rightarrow> s
      | Some el \<Rightarrow>
          s\<lparr>container :=
              map (\<lambda>e. if elem e = el then e\<lparr>span_text := newMessage\<rparr> else e) (container s)\<rparr>)"

definition loading_success :: "json \<times> nat option \<Rightarrow> string \<Rightarrow> string \<Rightarrow> nm \<Rightarrow> nm" where
  "loading_success h msg n s = fst (success msg n (hide s (fst h)))"

definition loading_error :: "json \<times> nat option \<Rightarrow> string \<Rightarrow> string \<Rightarrow> nm \<Rightarrow> nm" where
  "loading_error h msg n s = fst (error msg n (hide s (fst h)))"

definition loading_hide :: "json \<times> nat option \<Rightarrow> nm \<Rightarrow> nm" where
  "loading_hide h s = hide s (fst h)"

text \<open>A promise settles once: calling its \<^verbatim>\<open>resolve\<close> again changes nothing.\<close>

definition settle :: "nat \<Rightarrow> bool \<Rightarrow> bool option list \<Rightarrow> bool option list" where
  "settle p r ps = (if p < length ps \<and> ps ! p = None then ps[p := Some r] else ps)"

text \<open>\<^verbatim>\<open>handleConfirm(notificationId, result)\<close>.\<close>

definition handleConfirm :: "nm \<Rightarrow> json \<Rightarrow> bool \<Rightarrow> nm" where
  "handleConfirm s notificationId result =
     (case map_of (notifications s) notificationId of
        None \<Rightarrow> s
      | Some notificationData \<Rightarrow>
          (let s1 = (case resolve notificationData of
                       None \<Rightarrow> s
                     | Some p \<Rightarrow> s\<lparr>promises := settle p result (promises s)\<rparr>)
           in hide s1 notificationId))"

text \<open>\<^verbatim>\<open>confirm(message, options)\<close>: the second component is the promise returned. The
  style sheet it adds to the document once is left out.\<close>

definition confirm :: "string \<Rightarrow> string \<Rightarrow> string \<Rightarrow> nm \<Rightarrow> nm \<times> nat" where
  "confirm msg type n s =
     (let p = length (promises s);
          s0 = s\<lparr>promises := promises s @ [None]\<rparr>;
          notificationId = JNum n;
          el = next_element s0;
          notification = \<lparr>elem = el, className = ''notification confirm-notification '' @ type,
                          shown = False, dataset_id = n, span_text = msg,
                          buttons = [(YesButton, n), (NoButton, n)]\<rparr>;
          s1 = s0\<lparr>container := container s0 @ [notification], next_element := Suc el\<rparr>;
          s2 = s1\<lparr>notifications :=
                    AList.update notificationId
                      \<lparr>element_of = el, timeout = None, resolve = None\<rparr> (notifications s1)\<rparr>;
          (s3, h0) = setTimeout (AddShowClass el) 100 s2;
          s4 = (case map_of (notifications s3) notificationId of
                  None \<Rightarrow> s3
                | Some d \<Rightarrow>
                    s3\<lparr>notifications :=
                         AList.update notificationId (d\<lparr>resolve := Some p\<rparr>) (notifications s3)\<rparr>);
          (s5, h1) = setTimeout (AutoCancel notificationId) 10000 s4
      in (s5, p))"

text \<open>A click on a button of an element that is in the container runs the handler
  written into the markup, whose argument is a string.\<close>

definition click :: "nat \<Rightarrow> button \<Rightarrow> nm \<Rightarrow> nm" where
  "click el b s =
     (case find (\<lambda>e. elem e = el) (container s) of
        None \<Rightarrow> s
      | Some e \<Rightarrow>
          (case map_of (buttons e) b of
             None \<Rightarrow> s
           | Some arg \<Rightarrow>
               (case b of
                  CloseButton \<Rightarrow> hide s (JStr arg)
                | YesButton \<Rightarrow> handleConfirm s (JStr arg) True
                | NoButton \<Rightarrow> handleConfirm s (JStr arg) False)))"

text \<open>What a timer does when it fires.\<close>

fun fire :: "timer_action \<Rightarrow> nm \<Rightarrow> nm" where
  "fire (AddShowClass el) s = set_shown el True s"
| "fire (AutoHide notificationId) s = hide s notificationId"
| "fire (RemoveElement el notificationId) s = remove_element el notificationId s"
| "fire (AutoCancel notificationId) s =
     (if map_of (notifications s) notificationId \<noteq> None
      then handleConfirm s notificationId False else s)"

definition fire_next :: "nm \<Rightarrow> nm" where
  "fire_next s =
     (case timers s of
        [] \<Rightarrow> s
      | t # ts \<Rightarrow> fire (action t) (s\<lparr>timers := ts, clock := max (clock s) (due t)\<rparr>))"

text \<open>Each pending timer is counted with the timers it can still set: an auto-hide and
  an auto-cancel set one removal, a removal and an animation set none.\<close>

fun weight :: "timer_action \<Rightarrow> nat" where
  "weight (AddShowClass el) = 1"
| "weight (AutoHide i) = 2"
| "weight (RemoveElement el i) = 1"
| "weight (AutoCancel i) = 2"

definition pending :: "nm \<Rightarrow> nat" where
  "pending s = sum_list (map (\<lambda>t. weight (action t)) (timers s))"

text \<open>Time passing until no timer is left: the timers fire one after the other.\<close>

function run :: "nm \<Rightarrow> nm" where
  "run s = (if timers s = [] then s else run (fire_next s))"
  by pat_completeness auto
termination
proof (relation "measure pending")
  show "wf (measure pending)" by simp
next
  fix s :: nm
  assume ne: "timers s \<noteq> []"
  have enq: "sum_list (map (\<lambda>t. weight (action t)) (enqueue t ts))
      = weight (action t) + sum_list (map (\<lambda>t. weight (action t)) ts)" for t ts
    by (induction ts) auto
  have flt: "sum_list (map (\<lambda>t. weight (action t)) (filter P ts))
      \<le> sum_list (map (\<lambda>t. weight (action t)) ts)" for P ts
    by (induction ts) auto
  have hd: "pending (hide u i) \<le> pending u + 1" for u i
    using flt [of "\<lambda>t. handle t \<noteq> h" "timers u" for h]
    by (auto simp: hide_def pending_def setTimeout_def clearTimeout_def set_shown_def enq Let_def
        split: option.splits)
  have hc: "pending (handleConfirm u i r) \<le> pending u + 1" for u i r
  proof (cases "map_of (notifications u) i")
    case None
    then show ?thesis by (simp add: handleConfirm_def)
  next
    case (Some d)
    show ?thesis
    proof (cases "resolve d")
      case None
      with Some show ?thesis using hd [of u i] by (simp add: handleConfirm_def)
    next
      case (Some p)
      with \<open>map_of (notifications u) i = Some d\<close> show ?thesis
        using hd [of "u\<lparr>promises := settle p r (promises u)\<rparr>" i]
        by (simp add: handleConfirm_def pending_def)
    qed
  qed
  obtain t ts where ts: "timers s = t # ts" using ne by (cases "timers s") auto
  let ?s' = "s\<lparr>timers := ts, clock := max (clock s) (due t)\<rparr>"
  have p': "pending s = weight (action t) + pending ?s'"
    using ts by (simp add: pending_def)
  have "pending (fire (action t) ?s') < pending s"
  proof (cases "action t")
    case (AddShowClass el)
    then show ?thesis using p' by (simp add: set_shown_def pending_def)
  next
    case (AutoHide i)
    then show ?thesis using p' hd [of ?s' i] by simp
  next
    case (RemoveElement el i)
    then show ?thesis using p' by (simp add: remove_element_def pending_def)
  next
    case (AutoCancel i)
    then show ?thesis using p' hc [of ?s' i False] by simp
  qed
  then show "(fire_next s, s) \<in> measure pending"
    using ts by (simp add: fire_next_def)
qed

declare run.simps [simp del]

section \<open>Example values\<close>

definition empty_db :: db where
  "empty_db = \<lparr>ACCESS_TOKEN = None, storage = [], notices = []\<rparr>"

definition connected_db :: db where
  "connected_db =
     \<lparr>ACCESS_TOKEN = Some (PlainText ''simulated-github-token-k3j9x2ab''),
      storage = [(''pixelQR_github_access_token'', PlainText ''simulated-github-token-k3j9x2ab'')],
      notices = []\<rparr>"

definition example_code :: qr_code where
  "example_code =
     \<lparr>content = ''https://example.com'', size = 256, errorCorrection = ''M'',
      foregroundColor = ''#000000'', backgroundColor = ''#ffffff'',
      canvas_of = \<lparr>width = 0, height = 0, fills = []\<rparr>,
      qr = \<lparr>getModuleCount = 0, isDark = (\<lambda>row col. False)\<rparr>,
      timestamp = ''2024-01-15T10:30:00.000Z''\<rparr>"

definition example_record :: json where
  "example_record = make_qrData ''1700000000000'' example_code"

definition nameless_record :: json where
  "nameless_record = JObj [(''id'', JNum ''1700000000001''), (''content'', JStr ''hello'')]"

definition example_app :: app where
  "example_app =
     \<lparr>content_input = ''https://example.com'', size_select = 256,
      error_correction_select = ''M'', foreground_color = ''#000000'',
      background_color = ''#ffffff'', currentQRCode = Some example_code,
      preview = None, action_buttons_enabled = True, generate_btn_disabled = False,
      savedCodes = [], databaseManager = empty_db\<rparr>"

definition blank_app :: app where
  "blank_app = example_app\<lparr>content_input := ''  ''\<rparr>"

definition no_encoder :: "string \<Rightarrow> string \<Rightarrow> error + qr_object" where
  "no_encoder level data = Inl (Error ''code length overflow'')"

definition example_date :: "json option \<Rightarrow> int option" where
  "example_date v =
     (if v = Some (JStr ''2024-01-15T10:30:00.000Z'') then Some 1705314600000 else None)"

definition empty_nm :: nm where
  "empty_nm = \<lparr>container = [], notifications = [], timers = [], next_timer = 1,
               next_element = 0, clock = 0, promises = []\<rparr>"

definition no_list_artifact :: upload where
  "no_list_artifact = Content (JsonText (JObj [(''version'', JStr ''1.0.0'')]))"

definition example_backup :: jstext where
  "example_backup =
     JSON_stringify (JObj [(''version'', JStr VERSION),
                           (''exportDate'', JStr ''2024-01-16T08:00:00.000Z''),
                           (''qrCodes'', JArr [example_record])])"

definition other_db :: db where
  "other_db = fst (saveQRCodeToLocalStorage empty_db example_record)"

definition example_fresh :: "nat \<Rightarrow> string" where
  "example_fresh i = ''1700000000002.5''"

definition shown_nm :: nm where
  "shown_nm = fst (show ''QR code generated successfully!'' ''success'' None ''1700000000000.5'' empty_nm)"

definition confirm_nm :: nm where
  "confirm_nm = fire_next (fst (confirm ''Are you sure you want to delete this QR code?'' ''info''
                   ''1700000000000.25'' empty_nm))"

definition loading_nm :: nm where
  "loading_nm = fst (loading ''Saving...'' ''1700000000000.75'' empty_nm)"

section \<open>Notions used in the statements\<close>

text \<open>A backup artifact is well formed when its text is JSON for an object whose
  \<^verbatim>\<open>qrCodes\<close> is a list; every other upload is malformed.\<close>

definition well_formed_artifact :: "upload \<Rightarrow> bool" where
  "well_formed_artifact file =
     (case file of
        Content (JsonText (JObj kvs)) \<Rightarrow>
          (case map_of kvs ''qrCodes'' of Some (JArr xs) \<Rightarrow> True | _ \<Rightarrow> False)
      | _ \<Rightarrow> False)"

text \<open>No element of the list has the id \<open>i\<close>, and reading the id of each element
  succeeds.\<close>

definition absent_from_index :: "json list \<Rightarrow> json option \<Rightarrow> bool" where
  "absent_from_index xs i =
     list_all (\<lambda>c. case get_prop c ''id'' of Inl e \<Rightarrow> False | Inr ci \<Rightarrow> \<not> strict_eq ci i) xs"

text \<open>The records of a backup artifact.\<close>

fun artifact_codes :: "jstext option \<Rightarrow> json list option" where
  "artifact_codes (Some (JsonText (JObj kvs))) =
     (case map_of kvs ''qrCodes'' of Some (JArr xs) \<Rightarrow> Some xs | _ \<Rightarrow> None)"
| "artifact_codes t = None"

text \<open>The display name as the specification words it: the content cut to 30 characters,
  every run of characters that are not word characters replaced with one underscore.\<close>

function replace_nonword_runs :: "string \<Rightarrow> string" where
  "replace_nonword_runs [] = []"
| "replace_nonword_runs (c # cs) =
     (if \<not> is_word c then CHR ''_'' # replace_nonword_runs (dropWhile (\<lambda>d. \<not> is_word d) cs)
      else c # replace_nonword_runs cs)"
  by pat_completeness auto
termination
  by (relation "measure length") (auto simp: length_dropWhile_le less_Suc_eq_le)

definition spec_display_name :: "string \<Rightarrow> string" where
  "spec_display_name txt = replace_nonword_runs (take 30 txt)"

text \<open>Every timer handle kept in an entry of the map has been handed out: it is below
  the next handle. The empty manager has the property and every operation keeps it.\<close>

definition handles_ok :: "nm \<Rightarrow> bool" where
  "handles_ok s =
     list_all (\<lambda>(k, e). case timeout e of None \<Rightarrow> True | Some h \<Rightarrow> h < next_timer s)
       (notifications s)"

text \<open>Two queues of timers that fire alike: timer by timer the same time and the same
  callback, with the same handle unless both handles are at least \<open>N\<close> (no entry keeps
  such a handle); the second queue may hold a removal twice in a row where the first
  holds it once.\<close>

definition same_timer :: "nat \<Rightarrow> timer \<Rightarrow> timer \<Rightarrow> bool" where
  "same_timer N t u =
     (due t = due u \<and> action t = action u \<and> (handle t = handle u \<or> (N \<le> handle t \<and> N \<le> handle u)))"

fun is_removal :: "timer_action \<Rightarrow> bool" where
  "is_removal (RemoveElement el i) = True"
| "is_removal a = False"

inductive same_queue :: "nat \<Rightarrow> timer list \<Rightarrow> timer list \<Rightarrow> bool" for N where
  Nil: "same_queue N [] []"
| Cons: "same_timer N t u \<Longrightarrow> same_queue N ts us \<Longrightarrow> same_queue N (t # ts) (u # us)"
| Dup: "same_timer N t u \<Longrightarrow> same_timer N t u' \<Longrightarrow> is_removal (action t) \<Longrightarrow>
        same_queue N ts us \<Longrightarrow> same_queue N (t # ts) (u # u' # us)"

definition sim :: "nat \<Rightarrow> nm \<Rightarrow> nm \<Rightarrow> bool" where
  "sim N a b =
     (container a = container b \<and> notifications a = notifications b
      \<and> promises a = promises b \<and> clock a = clock b
      \<and> N \<le> next_timer a \<and> N \<le> next_timer b
      \<and> (\<forall>k e h. (k, e) \<in> set (notifications a) \<longrightarrow> timeout e = Some h \<longrightarrow> h < N)
      \<and> same_queue N (timers a) (timers b))"

text \<open>The notification \<open>k\<close> is on its way out: it is no longer in the map, or a removal
  for it is pending, or an auto-hide for it is pending that no other entry can clear.\<close>

definition bounded_handles :: "nat \<Rightarrow> nm \<Rightarrow> bool" where
  "bounded_handles N u =
     (N \<le> next_timer u
      \<and> (\<forall>k e h. (k, e) \<in> set (notifications u) \<longrightarrow> timeout e = Some h \<longrightarrow> h < N))"

definition leaving :: "nat \<Rightarrow> json \<Rightarrow> nm \<Rightarrow> bool" where
  "leaving N k u =
     (bounded_handles N u
      \<and> (map_of (notifications u) k = None
          \<or> (\<exists>t \<in> set (timers u). (\<exists>el. action t = RemoveElement el k) \<and> N \<le> handle t)
          \<or> (\<exists>t \<in> set (timers u). action t = AutoHide k
                \<and> (\<forall>k' e. (k', e) \<in> set (notifications u) \<longrightarrow> timeout e = Some (handle t)
                      \<longrightarrow> k' = k))))"

section \<open>Properties\<close>

subsection \<open>Generation with blank content\<close>

text \<open>
  C8. When the content is empty after trimming, \<^verbatim>\<open>generateQRCode\<close> only records one
  error notification: the current code, the preview and the form are what they were,
  and so is every other part of the application.
\<close>

theorem generate_blank_content:
  assumes "trim (content_input a) = []"
  shows "generateQRCode encoder now a =
           a\<lparr>databaseManager := (databaseManager a)
               \<lparr>notices := notices (databaseManager a)
                  @ [(Failure, ''Please enter text or URL to generate QR code'')]\<rparr>\<rparr>
         \<and> currentQRCode (generateQRCode encoder now a) = currentQRCode a
         \<and> preview (generateQRCode encoder now a) = preview a
         \<and> content_input (generateQRCode encoder now a) = content_input a"
  using assms by (simp add: generateQRCode_def app_notify_def notify_def)

theorem generate_blank_content_witness:
  "trim (content_input blank_app) = []
   \<and> currentQRCode (generateQRCode no_encoder ''2024-01-15T10:30:00.000Z'' blank_app)
       = Some example_code
   \<and> notices (databaseManager (generateQRCode no_encoder ''2024-01-15T10:30:00.000Z'' blank_app))
       = [(Failure, ''Please enter text or URL to generate QR code'')]"
proof -
  have h: "trim (content_input blank_app) = []"
    by (simp add: blank_app_def example_app_def trim_def is_space_def)
  show ?thesis
    using h generate_blank_content [OF h, of no_encoder "''2024-01-15T10:30:00.000Z''"]
    by (simp add: blank_app_def example_app_def empty_db_def)
qed

subsection \<open>Import of a malformed artifact\<close>

lemma import_body_malformed:
  assumes "\<not> well_formed_artifact file"
  shows "\<exists>e. import_body fresh ls file = (ls, Inl e)
           \<and> (\<forall>kvs. file = Content (JsonText (JObj kvs))
                 \<longrightarrow> e = Error ''Invalid backup file format'')"
  using assms
  by (auto simp: import_body_def well_formed_artifact_def
      split: upload.splits jstext.splits json.splits option.splits sum.splits)

text \<open>
  C5. A malformed artifact is rejected: \<^verbatim>\<open>importQRCodesFromBackup\<close> returns zero,
  records one error notification and leaves local storage, and the rest of the state,
  as it was. When the text is a JSON object without a \<^verbatim>\<open>qrCodes\<close> list, the error is
  the validation error of the code.
\<close>

theorem import_malformed_rejected:
  assumes "\<not> well_formed_artifact file"
  shows "\<exists>e. importQRCodesFromBackup fresh st file =
           (st\<lparr>notices := notices st @ [(Failure, ''Error importing QR codes: '' @ message e)]\<rparr>, 0)
         \<and> (\<forall>kvs. file = Content (JsonText (JObj kvs))
               \<longrightarrow> e = Error ''Invalid backup file format'')"
proof -
  obtain e where e: "import_body fresh (storage st) file = (storage st, Inl e)"
    and v: "\<forall>kvs. file = Content (JsonText (JObj kvs)) \<longrightarrow> e = Error ''Invalid backup file format''"
    using import_body_malformed [OF assms] by blast
  from e have "importQRCodesFromBackup fresh st file =
           (st\<lparr>notices := notices st @ [(Failure, ''Error importing QR codes: '' @ message e)]\<rparr>, 0)"
    by (simp add: importQRCodesFromBackup_def notify_def)
  with v show ?thesis by blast
qed

theorem import_malformed_rejected_witness:
  "\<not> well_formed_artifact no_list_artifact
   \<and> importQRCodesFromBackup (\<lambda>i. ''1700000000002.5'') empty_db no_list_artifact =
       (empty_db\<lparr>notices := [(Failure, ''Error importing QR codes: Invalid backup file format'')]\<rparr>, 0)"
proof -
  have h: "\<not> well_formed_artifact no_list_artifact"
    by (simp add: well_formed_artifact_def no_list_artifact_def)
  obtain e where
    "importQRCodesFromBackup (\<lambda>i. ''1700000000002.5'') empty_db no_list_artifact =
       (empty_db\<lparr>notices := notices empty_db @ [(Failure, ''Error importing QR codes: '' @ message e)]\<rparr>, 0)"
    and "e = Error ''Invalid backup file format''"
    using import_malformed_rejected [OF h, of "\<lambda>i. ''1700000000002.5''" empty_db]
    by (auto simp: no_list_artifact_def)
  then show ?thesis using h by (simp add: empty_db_def)
qed

subsection \<open>Local storage\<close>

lemma slot_key_not_index [simp]: "qrcode_prefix @ x \<noteq> saved_codes_key" "saved_codes_key \<noteq> qrcode_prefix @ x"
  by (simp_all add: qrcode_prefix_def saved_codes_key_def LOCAL_STORAGE_PREFIX_def)

lemma getItem_setItem: "getItem (setItem ls k v) k' = (if k' = k then Some v else getItem ls k')"
  by (simp add: getItem_def setItem_def update_conv')

lemma getItem_removeItem: "getItem (removeItem ls k) k' = (if k' = k then None else getItem ls k')"
  by (simp add: getItem_def removeItem_def delete_conv')

lemma removeItem_absent: "getItem ls k = None \<Longrightarrow> removeItem ls k = ls"
  by (simp add: getItem_def removeItem_def map_of_eq_None_iff)

lemma setItem_same: "getItem ls k = Some v \<Longrightarrow> setItem ls k v = ls"
  by (simp add: getItem_def setItem_def update_triv)

lemma filter_id_absent: "absent_from_index xs i \<Longrightarrow> filter_id xs i = Inr xs"
  by (induction xs) (auto simp: absent_from_index_def split: sum.splits)

lemma findIndex_id_absent: "absent_from_index xs i \<Longrightarrow> findIndex_id xs i = Inr None"
  by (induction xs) (auto simp: absent_from_index_def split: sum.splits)

lemma filter_id_result_absent: "filter_id xs i = Inr ys \<Longrightarrow> absent_from_index ys i"
  by (induction xs arbitrary: ys) (auto simp: absent_from_index_def split: sum.splits if_splits)

lemma parse_codes_Inr:
  "parse_codes (Some t) = Inr xs \<Longrightarrow> truthy_text (Some t) \<Longrightarrow> t = JsonText (JArr xs)"
  by (cases t) (auto simp: parse_codes_def split: json.splits if_splits)

lemma save_local_body_new:
  assumes "get_prop qrData ''id'' = Inr qid"
    and "saved_index ls = Inr xs" and "absent_from_index xs qid"
  shows "save_local_body ls qrData =
           (setItem (setItem ls (qrcode_prefix @ template qid) (JSON_stringify qrData))
              saved_codes_key (JSON_stringify (JArr (xs @ [qrData]))), Inr ())"
  using assms
  by (simp add: save_local_body_def saved_index_def getItem_setItem findIndex_id_absent)

lemma example_name: "generateQRName now ''https://example.com'' = ''httpsexamplecom''"
  by (simp add: generateQRName_def is_word_def is_space_def)

lemma spec_name: "spec_display_name ''https://example.com'' = ''https_example_com''"
  by (simp add: spec_display_name_def is_word_def)

lemma example_record_eq:
  "example_record = JObj [(''id'', JNum ''1700000000000''),
           (''content'', JStr ''https://example.com''),
           (''size'', JNum ''256''),
           (''errorCorrection'', JStr ''M''),
           (''foregroundColor'', JStr ''#000000''),
           (''backgroundColor'', JStr ''#ffffff''),
           (''timestamp'', JStr ''2024-01-15T10:30:00.000Z''),
           (''name'', JStr ''httpsexamplecom'')]"
  by (simp add: example_record_def make_qrData_def example_code_def example_name)
    (simp add: nat_text.simps digit_char_def)

lemma other_db_storage:
  "storage other_db =
     [(''pixelQR_qrcode_1700000000000'', JsonText example_record),
      (''pixelQR_saved_codes'', JsonText (JArr [example_record]))]"
  by (simp add: other_db_def saveQRCodeToLocalStorage_def save_local_body_def empty_db_def
      example_record_eq setItem_def getItem_def qrcode_prefix_def saved_codes_key_def
      LOCAL_STORAGE_PREFIX_def JSON_stringify_def parse_codes_def notify_def)

lemma connected_db_token: "truthy_text (ACCESS_TOKEN connected_db)"
  by (simp add: connected_db_def)

lemma nameless_remote: "remote_write nameless_record
    = Inl (TypeError ''Cannot read properties of undefined (reading replace)'')"
  by (simp add: remote_write_def nameless_record_def)

lemma example_remote: "remote_write example_record = Inr ()"
  by (simp add: remote_write_def example_record_eq)

subsection \<open>Save with fallback\<close>

lemma findIndex_id_bound: "findIndex_id xs i = Inr (Some n) \<Longrightarrow> n < length xs"
  by (induction xs arbitrary: n) (auto split: sum.splits if_splits option.splits)

lemma save_local_body_ok:
  assumes "get_prop qrData ''id'' = Inr qid"
    and "saved_index ls = Inr xs" and "findIndex_id xs qid = Inr r"
  shows "save_local_body ls qrData =
           (setItem (setItem ls (qrcode_prefix @ template qid) (JSON_stringify qrData))
              saved_codes_key
              (JSON_stringify (JArr (case r of None \<Rightarrow> xs @ [qrData] | Some n \<Rightarrow> xs[n := qrData]))),
            Inr ())"
  using assms
  by (cases r) (simp_all add: save_local_body_def saved_index_def getItem_setItem)

lemma save_reports_local_failure:
  assumes "\<not> truthy_text (ACCESS_TOKEN st)" and "get_prop qrData ''id'' = Inr qid"
    and "saved_index (storage st) = Inl e"
  shows "snd (saveQRCodeToDatabase st qrData) = False
         \<and> getItem (storage (fst (saveQRCodeToDatabase st qrData)))
               (qrcode_prefix @ template qid) = Some (JSON_stringify qrData)"
  using assms
  by (simp add: saveQRCodeToDatabase_def saveQRCodeToLocalStorage_def save_local_body_def
      saved_index_def getItem_setItem notify_def)

text \<open>
  C3. Take a record whose id can be read and a store whose index reads back as a list
  in which the search for the id ends, so that the local write succeeds. Without a
  credential token, or with a token when the remote attempt throws,
  \<^verbatim>\<open>saveQRCodeToDatabase\<close> returns true and writes local storage: the slot of the id
  holds the text of the record, and the index is the old list with the record put at
  the place of the entry with its id, or appended when there is none. Nothing else of
  the state changes but the log, which gets the error of the remote attempt, if one
  was made, and then the notice of the local save.
\<close>

theorem save_falls_back_to_local:
  assumes "\<not> truthy_text (ACCESS_TOKEN st) \<or> (\<exists>e. remote_write qrData = Inl e)"
    and "get_prop qrData ''id'' = Inr qid"
    and "saved_index (storage st) = Inr xs"
    and "findIndex_id xs qid = Inr r"
  shows "saveQRCodeToDatabase st qrData =
           (st\<lparr>storage :=
                  setItem (setItem (storage st) (qrcode_prefix @ template qid)
                             (JSON_stringify qrData))
                    saved_codes_key
                    (JSON_stringify
                       (JArr (case r of None \<Rightarrow> xs @ [qrData] | Some n \<Rightarrow> xs[n := qrData]))),
                notices :=
                  notices st
                  @ (if truthy_text (ACCESS_TOKEN st)
                     then (case remote_write qrData of
                             Inl e \<Rightarrow> [(Failure, ''Error saving to GitHub: '' @ message e)]
                           | Inr u \<Rightarrow> [])
                     else [])
                  @ [(Success, ''QR code \"'' @ name_of qrData @ ''\" saved locally'')]\<rparr>,
            True)
         \<and> getItem (storage (fst (saveQRCodeToDatabase st qrData)))
               (qrcode_prefix @ template qid) = Some (JSON_stringify qrData)
         \<and> saved_index (storage (fst (saveQRCodeToDatabase st qrData)))
             = Inr (case r of None \<Rightarrow> xs @ [qrData] | Some n \<Rightarrow> xs[n := qrData])
         \<and> qrData \<in> set (case r of None \<Rightarrow> xs @ [qrData] | Some n \<Rightarrow> xs[n := qrData])"
proof -
  let ?ys = "case r of None \<Rightarrow> xs @ [qrData] | Some n \<Rightarrow> xs[n := qrData]"
  let ?ls = "setItem (setItem (storage st) (qrcode_prefix @ template qid) (JSON_stringify qrData))
               saved_codes_key (JSON_stringify (JArr ?ys))"
  have b: "save_local_body (storage st) qrData = (?ls, Inr ())"
    using assms(2-4) by (rule save_local_body_ok)
  have loc: "saveQRCodeToLocalStorage u qrData =
      (u\<lparr>storage := ?ls,
         notices := notices u @ [(Success, ''QR code \"'' @ name_of qrData @ ''\" saved locally'')]\<rparr>,
       True)" if "storage u = storage st" for u
    using b that by (simp add: saveQRCodeToLocalStorage_def notify_def)
  have main: "saveQRCodeToDatabase st qrData =
           (st\<lparr>storage := ?ls,
                notices :=
                  notices st
                  @ (if truthy_text (ACCESS_TOKEN st)
                     then (case remote_write qrData of
                             Inl e \<Rightarrow> [(Failure, ''Error saving to GitHub: '' @ message e)]
                           | Inr u \<Rightarrow> [])
                     else [])
                  @ [(Success, ''QR code \"'' @ name_of qrData @ ''\" saved locally'')]\<rparr>,
            True)"
  proof (cases "truthy_text (ACCESS_TOKEN st)")
    case False
    then show ?thesis using loc [of st] by (simp add: saveQRCodeToDatabase_def)
  next
    case True
    then obtain e where e: "remote_write qrData = Inl e" using assms(1) by blast
    show ?thesis
      using True e loc [of "notify Failure (''Error saving to GitHub: '' @ message e) st"]
      by (simp add: saveQRCodeToDatabase_def notify_def)
  qed
  have g: "getItem ?ls (qrcode_prefix @ template qid) = Some (JSON_stringify qrData)"
    by (simp add: getItem_setItem)
  have i: "saved_index ?ls = Inr ?ys"
    by (simp add: saved_index_def getItem_setItem JSON_stringify_def parse_codes_def)
  have m: "qrData \<in> set ?ys"
  proof (cases r)
    case None
    then show ?thesis by simp
  next
    case (Some n)
    then have "n < length xs" using assms(4) findIndex_id_bound by blast
    then show ?thesis using Some by (simp add: set_update_memI)
  qed
  show ?thesis using g i m by (simp add: main)
qed

theorem save_falls_back_to_local_witness:
  "\<not> truthy_text (ACCESS_TOKEN empty_db)
   \<and> get_prop example_record ''id'' = Inr (Some (JNum ''1700000000000''))
   \<and> saved_index (storage empty_db) = Inr []
   \<and> findIndex_id [] (Some (JNum ''1700000000000'')) = Inr None
   \<and> snd (saveQRCodeToDatabase empty_db example_record) = True
   \<and> getItem (storage (fst (saveQRCodeToDatabase empty_db example_record)))
        (qrcode_prefix @ ''1700000000000'') = Some (JSON_stringify example_record)
   \<and> saved_index (storage (fst (saveQRCodeToDatabase empty_db example_record)))
        = Inr [example_record]
   \<and> truthy_text (ACCESS_TOKEN connected_db)
   \<and> remote_write nameless_record
        = Inl (TypeError ''Cannot read properties of undefined (reading replace)'')
   \<and> get_prop nameless_record ''id'' = Inr (Some (JNum ''1700000000001''))
   \<and> saved_index (storage connected_db) = Inr []
   \<and> snd (saveQRCodeToDatabase connected_db nameless_record) = True
   \<and> getItem (storage (fst (saveQRCodeToDatabase connected_db nameless_record)))
        (qrcode_prefix @ ''1700000000001'') = Some (JSON_stringify nameless_record)
   \<and> saved_index (storage (fst (saveQRCodeToDatabase connected_db nameless_record)))
        = Inr [nameless_record]"
proof -
  have d1: "\<not> truthy_text (ACCESS_TOKEN empty_db) \<or> (\<exists>e. remote_write example_record = Inl e)"
    and d: "\<not> truthy_text (ACCESS_TOKEN empty_db)"
    by (simp_all add: empty_db_def)
  have i1: "get_prop example_record ''id'' = Inr (Some (JNum ''1700000000000''))"
    by (simp add: example_record_eq)
  have x1: "saved_index (storage empty_db) = Inr []"
    by (simp add: empty_db_def saved_index_def getItem_def parse_codes_def)
  have f: "findIndex_id [] (Some (JNum ''1700000000000'')) = Inr None"
    "findIndex_id [] (Some (JNum ''1700000000001'')) = Inr None" by simp_all
  have c2: "\<not> truthy_text (ACCESS_TOKEN connected_db) \<or> (\<exists>e. remote_write nameless_record = Inl e)"
    using nameless_remote by blast
  have i2: "get_prop nameless_record ''id'' = Inr (Some (JNum ''1700000000001''))"
    by (simp add: nameless_record_def)
  have x2: "saved_index (storage connected_db) = Inr []"
    by (simp add: connected_db_def saved_index_def getItem_def parse_codes_def
        saved_codes_key_def LOCAL_STORAGE_PREFIX_def)
  note t1 = save_falls_back_to_local [OF d1 i1 x1 f(1)]
  note t2 = save_falls_back_to_local [OF c2 i2 x2 f(2)]
  have r1: "snd (saveQRCodeToDatabase empty_db example_record) = True"
    using t1 [THEN conjunct1] by simp
  have g1: "getItem (storage (fst (saveQRCodeToDatabase empty_db example_record)))
        (qrcode_prefix @ ''1700000000000'') = Some (JSON_stringify example_record)"
    using t1 [THEN conjunct2, THEN conjunct1] by simp
  have s1: "saved_index (storage (fst (saveQRCodeToDatabase empty_db example_record)))
        = Inr [example_record]"
    using t1 [THEN conjunct2, THEN conjunct2, THEN conjunct1] by simp
  have r2: "snd (saveQRCodeToDatabase connected_db nameless_record) = True"
    using t2 [THEN conjunct1] by simp
  have g2: "getItem (storage (fst (saveQRCodeToDatabase connected_db nameless_record)))
        (qrcode_prefix @ ''1700000000001'') = Some (JSON_stringify nameless_record)"
    using t2 [THEN conjunct2, THEN conjunct1] by simp
  have s2: "saved_index (storage (fst (saveQRCodeToDatabase connected_db nameless_record)))
        = Inr [nameless_record]"
    using t2 [THEN conjunct2, THEN conjunct2, THEN conjunct1] by simp
  show ?thesis
    using d i1 x1 f(1) r1 g1 s1 connected_db_token nameless_remote i2 x2 r2 g2 s2
    by (intro conjI)
qed

subsection \<open>A remote save leaves local storage alone\<close>

lemma collect_codes_members:
  "collect_codes ls keys = Inr xs \<Longrightarrow> x \<in> set xs \<Longrightarrow> x \<noteq> JNull
     \<Longrightarrow> \<exists>k. getItem ls k = Some (JsonText x)"
proof (induction keys arbitrary: xs)
  case Nil
  then show ?case by simp
next
  case (Cons key keys)
  show ?case
  proof (cases "key \<noteq> [] \<and> startsWith key qrcode_prefix")
    case False
    with Cons show ?thesis by auto
  next
    case True
    then obtain v rest where v: "(case getItem ls key of None \<Rightarrow> Inr JNull | Some t \<Rightarrow> JSON_parse t) = Inr v"
      and rest: "collect_codes ls keys = Inr rest" and xs: "xs = v # rest"
      using Cons.prems(1) by (auto split: sum.splits)
    show ?thesis
    proof (cases "x = v")
      case True
      with v Cons.prems(3) show ?thesis
        by (cases "getItem ls key") (auto split: option.splits elim: JSON_parse.elims)
    next
      case False
      with xs Cons.prems(2) have "x \<in> set rest" by simp
      with Cons.IH [OF rest] Cons.prems(3) show ?thesis by blast
    qed
  qed
qed

text \<open>
  C10. With a token and a remote attempt that succeeds, \<^verbatim>\<open>saveQRCodeToDatabase\<close>
  returns true and changes nothing but the log of notifications: local storage is the
  same, so the artifact of an export that follows is the one an export would have
  produced before, and it does not hold the record unless a slot already did.
\<close>

theorem remote_save_leaves_local_storage:
  assumes "truthy_text (ACCESS_TOKEN st)" and "remote_write qrData = Inr ()"
  shows "saveQRCodeToDatabase st qrData =
           (st\<lparr>notices := notices st
                  @ [(Success, ''QR code \"'' @ name_of qrData @ ''\" saved to GitHub'')]\<rparr>, True)
         \<and> snd (exportAllQRCodes now (fst (saveQRCodeToDatabase st qrData)))
             = snd (exportAllQRCodes now st)
         \<and> ((\<forall>k. getItem (storage st) k \<noteq> Some (JSON_stringify qrData)) \<longrightarrow>
              (\<forall>xs. artifact_codes (fst (snd (exportAllQRCodes now (fst (saveQRCodeToDatabase st qrData)))))
                      = Some xs \<longrightarrow> qrData \<notin> set xs))"
proof -
  have s: "saveQRCodeToDatabase st qrData =
           (st\<lparr>notices := notices st
                  @ [(Success, ''QR code \"'' @ name_of qrData @ ''\" saved to GitHub'')]\<rparr>, True)"
    using assms by (simp add: saveQRCodeToDatabase_def notify_def)
  have e: "snd (exportAllQRCodes now (fst (saveQRCodeToDatabase st qrData)))
             = snd (exportAllQRCodes now st)"
    by (simp add: s exportAllQRCodes_def notify_def split: sum.splits)
  have q: "qrData \<noteq> JNull" using assms(2) by (auto simp: remote_write_def)
  have n: "qrData \<notin> set xs"
    if a: "\<forall>k. getItem (storage st) k \<noteq> Some (JSON_stringify qrData)"
      and x: "artifact_codes (fst (snd (exportAllQRCodes now (fst (saveQRCodeToDatabase st qrData))))) = Some xs"
    for xs
  proof
    assume m: "qrData \<in> set xs"
    from x have "collect_codes (storage st) (map fst (storage st)) = Inr xs"
      by (auto simp: s exportAllQRCodes_def notify_def JSON_stringify_def split: sum.splits)
    from collect_codes_members [OF this m q] a show False by (simp add: JSON_stringify_def)
  qed
  from s e n show ?thesis by blast
qed

theorem remote_save_leaves_local_storage_witness:
  "truthy_text (ACCESS_TOKEN connected_db) \<and> remote_write example_record = Inr ()
   \<and> (\<forall>k. getItem (storage connected_db) k \<noteq> Some (JSON_stringify example_record))
   \<and> storage (fst (saveQRCodeToDatabase connected_db example_record)) = storage connected_db
   \<and> snd (saveQRCodeToDatabase connected_db example_record) = True
   \<and> artifact_codes (fst (snd (exportAllQRCodes ''2024-01-16T08:00:00.000Z''
        (fst (saveQRCodeToDatabase connected_db example_record))))) = Some []"
proof -
  have n: "\<forall>k. getItem (storage connected_db) k \<noteq> Some (JSON_stringify example_record)"
    by (simp add: connected_db_def getItem_def JSON_stringify_def)
  have s: "saveQRCodeToDatabase connected_db example_record =
           (connected_db\<lparr>notices := notices connected_db
                  @ [(Success, ''QR code \"'' @ name_of example_record @ ''\" saved to GitHub'')]\<rparr>, True)"
    using remote_save_leaves_local_storage [OF connected_db_token example_remote] by blast
  have e: "artifact_codes (fst (snd (exportAllQRCodes ''2024-01-16T08:00:00.000Z'' connected_db))) = Some []"
    by (simp add: exportAllQRCodes_def connected_db_def qrcode_prefix_def
        LOCAL_STORAGE_PREFIX_def notify_def JSON_stringify_def)
  have "snd (exportAllQRCodes ''2024-01-16T08:00:00.000Z'' (fst (saveQRCodeToDatabase connected_db example_record)))
      = snd (exportAllQRCodes ''2024-01-16T08:00:00.000Z'' connected_db)"
    using remote_save_leaves_local_storage [OF connected_db_token example_remote] by blast
  with e have "artifact_codes (fst (snd (exportAllQRCodes ''2024-01-16T08:00:00.000Z''
        (fst (saveQRCodeToDatabase connected_db example_record))))) = Some []" by simp
  with n s connected_db_token example_remote show ?thesis by simp
qed

subsection \<open>Deleting an id that is not stored\<close>

lemma delete_local_body_absent:
  assumes "getItem ls (qrcode_prefix @ template qrId) = None"
    and "saved_index ls = Inr xs" and "absent_from_index xs qrId"
  shows "delete_local_body ls qrId = (ls, Inr ())"
proof -
  have r: "removeItem ls (qrcode_prefix @ template qrId) = ls"
    using assms(1) by (rule removeItem_absent)
  show ?thesis
  proof (cases "getItem ls saved_codes_key")
    case None
    then show ?thesis by (simp add: delete_local_body_def r)
  next
    case (Some t)
    show ?thesis
    proof (cases "truthy_text (Some t)")
      case False
      with Some show ?thesis by (simp add: delete_local_body_def r)
    next
      case True
      have p: "parse_codes (Some t) = Inr xs" using assms(2) Some by (simp add: saved_index_def)
      then have t: "t = JsonText (JArr xs)" using True by (rule parse_codes_Inr)
      have "setItem ls saved_codes_key (JSON_stringify (JArr xs)) = ls"
        using Some t by (simp add: setItem_same JSON_stringify_def)
      with Some True p show ?thesis
        by (simp add: delete_local_body_def r filter_id_absent [OF assms(3)])
    qed
  qed
qed

lemma delete_local_body_idem:
  "delete_local_body (fst (delete_local_body ls i)) i
     = (fst (delete_local_body ls i), snd (delete_local_body ls i))"
proof -
  let ?k = "qrcode_prefix @ template i"
  let ?ls1 = "removeItem ls ?k"
  have rr: "removeItem ?ls1 ?k = ?ls1" by (simp add: removeItem_def delete_idem)
  show ?thesis
  proof (cases "getItem ?ls1 saved_codes_key")
    case None
    then show ?thesis by (simp add: delete_local_body_def rr)
  next
    case (Some t)
    show ?thesis
    proof (cases "truthy_text (Some t)")
      case False
      with Some show ?thesis by (simp add: delete_local_body_def rr)
    next
      case True
      show ?thesis
      proof (cases "parse_codes (Some t)")
        case (Inl e)
        with Some True show ?thesis by (simp add: delete_local_body_def rr)
      next
        case (Inr xs)
        show ?thesis
        proof (cases "filter_id xs i")
          case (Inl e)
          with Some True Inr show ?thesis by (simp add: delete_local_body_def rr)
        next
          case ys: (Inr ys)
          let ?ls2 = "setItem ?ls1 saved_codes_key (JSON_stringify (JArr ys))"
          have first: "delete_local_body ls i = (?ls2, Inr ())"
            using Some True Inr ys by (simp add: delete_local_body_def)
          have r2: "removeItem ?ls2 ?k = ?ls2"
            by (simp add: removeItem_def setItem_def delete_update delete_idem)
          have g2: "getItem ?ls2 saved_codes_key = Some (JsonText (JArr ys))"
            by (simp add: getItem_setItem JSON_stringify_def)
          have f2: "filter_id ys i = Inr ys"
            using filter_id_result_absent [OF ys] by (rule filter_id_absent)
          have s2: "setItem ?ls2 saved_codes_key (JSON_stringify (JArr ys)) = ?ls2"
            by (simp add: setItem_def)
          have "delete_local_body ?ls2 i = (?ls2, Inr ())"
            by (simp add: delete_local_body_def r2 g2 parse_codes_def f2 s2)
          with first show ?thesis by simp
        qed
      qed
    qed
  qed
qed

lemma delete_local_idempotent:
  "storage (fst (deleteQRCodeFromLocalStorage (fst (deleteQRCodeFromLocalStorage st i)) i))
     = storage (fst (deleteQRCodeFromLocalStorage st i))
   \<and> snd (deleteQRCodeFromLocalStorage (fst (deleteQRCodeFromLocalStorage st i)) i)
     = snd (deleteQRCodeFromLocalStorage st i)"
proof -
  obtain ls r where b: "delete_local_body (storage st) i = (ls, r)" by (cases "delete_local_body (storage st) i")
  have "delete_local_body ls i = (ls, r)" using delete_local_body_idem [of "storage st" i] b by simp
  then show ?thesis using b
    by (cases r) (simp_all add: deleteQRCodeFromLocalStorage_def notify_def)
qed

text \<open>
  C6. When no slot and no element of the index has the id,
  \<^verbatim>\<open>deleteQRCodeFromLocalStorage\<close> returns true and changes nothing but the log of
  notifications, so the index is what it was. Deleting twice leaves the storage, and
  returns the result, of deleting once, whatever the state.
\<close>

theorem delete_absent_id:
  "(getItem (storage st) (qrcode_prefix @ template qrId) = None
      \<and> saved_index (storage st) = Inr xs \<and> absent_from_index xs qrId
    \<longrightarrow> deleteQRCodeFromLocalStorage st qrId =
          (st\<lparr>notices := notices st @ [(Success, ''QR code deleted from local storage'')]\<rparr>, True))
   \<and> storage (fst (deleteQRCodeFromLocalStorage (fst (deleteQRCodeFromLocalStorage st qrId)) qrId))
       = storage (fst (deleteQRCodeFromLocalStorage st qrId))
   \<and> snd (deleteQRCodeFromLocalStorage (fst (deleteQRCodeFromLocalStorage st qrId)) qrId)
       = snd (deleteQRCodeFromLocalStorage st qrId)"
proof -
  have "deleteQRCodeFromLocalStorage st qrId =
          (st\<lparr>notices := notices st @ [(Success, ''QR code deleted from local storage'')]\<rparr>, True)"
    if "getItem (storage st) (qrcode_prefix @ template qrId) = None"
      and "saved_index (storage st) = Inr xs" and "absent_from_index xs qrId"
    using delete_local_body_absent [OF that]
    by (simp add: deleteQRCodeFromLocalStorage_def notify_def)
  then show ?thesis using delete_local_idempotent [of st qrId] by blast
qed

theorem delete_absent_id_witness:
  "getItem (storage other_db) (qrcode_prefix @ template (Some (JNum ''42''))) = None
   \<and> saved_index (storage other_db) = Inr [example_record]
   \<and> absent_from_index [example_record] (Some (JNum ''42''))
   \<and> deleteQRCodeFromLocalStorage other_db (Some (JNum ''42'')) =
       (other_db\<lparr>notices := notices other_db @ [(Success, ''QR code deleted from local storage'')]\<rparr>,
        True)"
proof -
  have a: "getItem (storage other_db) (qrcode_prefix @ template (Some (JNum ''42''))) = None"
    by (simp add: other_db_storage getItem_def qrcode_prefix_def LOCAL_STORAGE_PREFIX_def)
  have b: "saved_index (storage other_db) = Inr [example_record]"
    by (simp add: other_db_storage saved_index_def getItem_def saved_codes_key_def
        LOCAL_STORAGE_PREFIX_def parse_codes_def)
  have c: "absent_from_index [example_record] (Some (JNum ''42''))"
    by (simp add: absent_from_index_def example_record_eq)
  show ?thesis
    using a b c delete_absent_id [of other_db "Some (JNum ''42'')" "[example_record]"] by blast
qed

subsection \<open>The display name of a saved record\<close>

text \<open>
  C4, as stated, fails: the record saved for \<^verbatim>\<open>https://example.com\<close> is the one
  new element of the index, but its name is \<open>''httpsexamplecom''\<close>, not the
  \<open>''https_example_com''\<close> that replacing runs of non-word characters with underscores
  gives.
\<close>

theorem display_name_counterexample:
  "saved_index (storage (databaseManager (saveQRCode example_date ''1700000000000'' example_app)))
     = Inr [example_record]
   \<and> get_prop example_record ''name'' = Inr (Some (JStr ''httpsexamplecom''))
   \<and> spec_display_name ''https://example.com'' = ''https_example_com''"
proof -
  have "fst (saveQRCodeToDatabase empty_db example_record) = other_db"
    by (simp add: saveQRCodeToDatabase_def other_db_def empty_db_def)
  then have "storage (databaseManager (saveQRCode example_date ''1700000000000'' example_app)) = storage other_db"
    by (simp add: saveQRCode_def example_app_def app_notify_def notify_def example_record_def
        case_prod_beta Let_def split: sum.splits)
  then have "saved_index (storage (databaseManager (saveQRCode example_date ''1700000000000'' example_app)))
     = Inr [example_record]"
    by (simp add: other_db_storage saved_index_def getItem_def saved_codes_key_def
        LOCAL_STORAGE_PREFIX_def parse_codes_def)
  then show ?thesis by (simp add: spec_name) (simp add: example_record_eq)
qed

text \<open>
  C4, amended. Saving the current code with content \<^verbatim>\<open>https://example.com\<close> without a
  token, when the index has no element with the new id, appends exactly the new record
  to the index. Its name is the content with every character other than a word
  character, white space or a hyphen deleted, \<open>''httpsexamplecom''\<close>, and the slot of
  its id holds the text of the record.
\<close>

theorem save_example_disconnected:
  assumes "currentQRCode a = Some c" and "content c = ''https://example.com''"
    and "\<not> truthy_text (ACCESS_TOKEN (databaseManager a))"
    and "saved_index (storage (databaseManager a)) = Inr xs"
    and "absent_from_index xs (Some (JNum now))"
  shows "saved_index (storage (databaseManager (saveQRCode date now a))) = Inr (xs @ [make_qrData now c])
         \<and> get_prop (make_qrData now c) ''name'' = Inr (Some (JStr ''httpsexamplecom''))
         \<and> get_prop (make_qrData now c) ''id'' = Inr (Some (JNum now))
         \<and> (case getItem (storage (databaseManager (saveQRCode date now a))) (qrcode_prefix @ now) of
               None \<Rightarrow> False | Some t \<Rightarrow> JSON_parse t = Inr (make_qrData now c))"
proof -
  let ?r = "make_qrData now c"
  have i: "get_prop ?r ''id'' = Inr (Some (JNum now))" by (simp add: make_qrData_def)
  have n: "get_prop ?r ''name'' = Inr (Some (JStr ''httpsexamplecom''))"
    using assms(2) by (simp add: make_qrData_def example_name)
  have b: "save_local_body (storage (databaseManager a)) ?r =
           (setItem (setItem (storage (databaseManager a)) (qrcode_prefix @ now) (JSON_stringify ?r))
              saved_codes_key (JSON_stringify (JArr (xs @ [?r]))), Inr ())"
    using save_local_body_new [OF i assms(4) assms(5)] by simp
  have s: "storage (databaseManager (saveQRCode date now a)) =
      setItem (setItem (storage (databaseManager a)) (qrcode_prefix @ now) (JSON_stringify ?r))
              saved_codes_key (JSON_stringify (JArr (xs @ [?r])))"
    using assms(1,3) b
    by (simp add: saveQRCode_def saveQRCodeToDatabase_def saveQRCodeToLocalStorage_def
        app_notify_def notify_def Let_def split: sum.splits)
  show ?thesis
    by (simp add: s i n saved_index_def getItem_setItem JSON_stringify_def parse_codes_def)
qed

theorem save_example_disconnected_witness:
  "currentQRCode example_app = Some example_code \<and> content example_code = ''https://example.com''
   \<and> \<not> truthy_text (ACCESS_TOKEN (databaseManager example_app))
   \<and> saved_index (storage (databaseManager example_app)) = Inr []
   \<and> absent_from_index [] (Some (JNum ''1700000000000''))
   \<and> saved_index (storage (databaseManager (saveQRCode example_date ''1700000000000'' example_app)))
       = Inr [example_record]
   \<and> get_prop example_record ''name'' = Inr (Some (JStr ''httpsexamplecom''))"
proof -
  have h: "currentQRCode example_app = Some example_code" "content example_code = ''https://example.com''"
    "\<not> truthy_text (ACCESS_TOKEN (databaseManager example_app))"
    "saved_index (storage (databaseManager example_app)) = Inr []"
    "absent_from_index [] (Some (JNum ''1700000000000''))"
    by (simp_all add: example_app_def example_code_def empty_db_def saved_index_def getItem_def
        parse_codes_def absent_from_index_def)
  show ?thesis
    using h save_example_disconnected [OF h] by (simp add: example_record_def)
qed

subsection \<open>Export then import\<close>

lemma import_each_keeps_index:
  "getItem (fst (import_each fresh i ls xs)) saved_codes_key = getItem ls saved_codes_key"
proof (induction xs arbitrary: i ls)
  case Nil
  then show ?case by simp
next
  case (Cons q xs)
  show ?case
  proof (cases "get_prop q ''id''")
    case (Inl e)
    then show ?thesis by simp
  next
    case (Inr qid)
    show ?thesis
    proof (cases "if falsy qid
                 then (case assign_id q (JNum (fresh i)) of
                         Inl e \<Rightarrow> Inl e
                       | Inr q' \<Rightarrow> Inr (q', Some (JNum (fresh i))))
                 else Inr (q, qid)")
      case (Inl e)
      with Inr show ?thesis by simp
    next
      case r: (Inr p)
      obtain q' qid' where p: "p = (q', qid')" by (cases p)
      let ?ls1 = "setItem ls (qrcode_prefix @ template qid') (JSON_stringify q')"
      have "getItem (fst (import_each fresh (Suc i) ?ls1 xs)) saved_codes_key
          = getItem ls saved_codes_key"
        by (simp add: Cons.IH getItem_setItem)
      then show ?thesis
        using Inr r p
        by (cases "import_each fresh (Suc i) ?ls1 xs") (auto simp: Let_def split: sum.splits)
    qed
  qed
qed

lemma import_keeps_index:
  "getItem (storage (fst (importQRCodesFromBackup fresh st file))) saved_codes_key
     = getItem (storage st) saved_codes_key"
proof -
  have "getItem (fst (import_body fresh ls file)) saved_codes_key = getItem ls saved_codes_key" for ls
    by (simp add: import_body_def import_each_keeps_index
        split: upload.splits sum.splits option.splits json.splits)
  from this [of "storage st"] show ?thesis
    by (cases "import_body fresh (storage st) file")
      (auto simp: importQRCodesFromBackup_def notify_def split: sum.splits)
qed

text \<open>
  C2. A store holds one saved record, in its slot and in the index. The artifact of its
  export, imported into an empty store, is counted as one record and written to the
  slot only: the \<^verbatim>\<open>saved_codes\<close> list is never written, and the index read back
  is empty where the original held the record.
\<close>

theorem import_does_not_restore_index:
  "saved_index (storage other_db) = Inr [example_record]
   \<and> snd (exportAllQRCodes ''2024-01-16T08:00:00.000Z'' other_db) = (Some example_backup, True)
   \<and> snd (importQRCodesFromBackup example_fresh empty_db (Content example_backup)) = 1
   \<and> storage (fst (importQRCodesFromBackup example_fresh empty_db (Content example_backup)))
       = [(''pixelQR_qrcode_1700000000000'', JsonText example_record)]
   \<and> saved_index (storage (fst (importQRCodesFromBackup example_fresh empty_db
        (Content example_backup)))) = Inr []"
proof -
  have a: "saved_index (storage other_db) = Inr [example_record]"
    by (simp add: other_db_storage saved_index_def getItem_def saved_codes_key_def
        LOCAL_STORAGE_PREFIX_def parse_codes_def)
  have b: "snd (exportAllQRCodes ''2024-01-16T08:00:00.000Z'' other_db) = (Some example_backup, True)"
    by (simp add: exportAllQRCodes_def other_db_storage getItem_def qrcode_prefix_def
        LOCAL_STORAGE_PREFIX_def example_backup_def)
  have c: "importQRCodesFromBackup example_fresh empty_db (Content example_backup)
      = (empty_db\<lparr>storage := [(''pixelQR_qrcode_1700000000000'', JsonText example_record)],
                  notices := [(Success, ''Imported 1 QR codes'')]\<rparr>, 1)"
    by (simp add: importQRCodesFromBackup_def import_body_def example_backup_def JSON_stringify_def
        empty_db_def notify_def)
      (simp add: example_record_eq setItem_def qrcode_prefix_def LOCAL_STORAGE_PREFIX_def
        JSON_stringify_def nat_text.simps digit_char_def notify_def)
  show ?thesis
    by (simp add: a b c) (simp add: saved_index_def getItem_def saved_codes_key_def
        LOCAL_STORAGE_PREFIX_def parse_codes_def)
qed

subsection \<open>Timers\<close>

lemma run_Nil: "timers s = [] \<Longrightarrow> run s = s"
  by (simp add: run.simps)

lemma run_Cons: "timers s = t # ts \<Longrightarrow> run s = run (fire_next s)"
  by (simp add: run.simps [of s])

lemma fire_next_Cons:
  "timers s = t # ts \<Longrightarrow>
     fire_next s = fire (action t) (s\<lparr>timers := ts, clock := max (clock s) (due t)\<rparr>)"
  by (simp add: fire_next_def)

lemma set_enqueue: "set (enqueue t ts) = insert t (set ts)"
  by (induction ts) auto

lemma filter_enqueue_all:
  "P t \<Longrightarrow> filter P ts = ts \<Longrightarrow> filter P (enqueue t ts) = enqueue t ts"
  by (simp add: filter_id_conv set_enqueue)

lemma shown_nm_eq:
  "shown_nm =
     \<lparr>container = [\<lparr>elem = 0, className = ''notification success'', shown = False,
                     dataset_id = ''1700000000000.5'',
                     span_text = ''QR code generated successfully!'',
                     buttons = [(CloseButton, ''1700000000000.5'')]\<rparr>],
      notifications = [(JNum ''1700000000000.5'',
                        \<lparr>element_of = 0, timeout = Some 2, resolve = None\<rparr>)],
      timers = [\<lparr>handle = 1, due = 100, action = AddShowClass 0\<rparr>,
                \<lparr>handle = 2, due = 3000, action = AutoHide (JNum ''1700000000000.5'')\<rparr>],
      next_timer = 3, next_element = 1, clock = 0, promises = []\<rparr>"
  by (simp add: shown_nm_def show_def empty_nm_def setTimeout_def Let_def defaultDuration_def
      NOTIFICATION_DURATION_def)

lemma confirm_nm_eq:
  "confirm_nm =
     \<lparr>container = [\<lparr>elem = 0, className = ''notification confirm-notification info'',
                     shown = True, dataset_id = ''1700000000000.25'',
                     span_text = ''Are you sure you want to delete this QR code?'',
                     buttons = [(YesButton, ''1700000000000.25''),
                                (NoButton, ''1700000000000.25'')]\<rparr>],
      notifications = [(JNum ''1700000000000.25'',
                        \<lparr>element_of = 0, timeout = None, resolve = Some 0\<rparr>)],
      timers = [\<lparr>handle = 2, due = 10000, action = AutoCancel (JNum ''1700000000000.25'')\<rparr>],
      next_timer = 3, next_element = 1, clock = 100, promises = [None]\<rparr>"
  by (simp add: confirm_nm_def confirm_def empty_nm_def setTimeout_def Let_def fire_next_def
      set_shown_def)


lemma loading_nm_eq:
  "loading_nm =
     \<lparr>container = [\<lparr>elem = 0, className = ''notification info'', shown = False,
                     dataset_id = ''1700000000000.75'', span_text = ''Saving...'',
                     buttons = [(CloseButton, ''1700000000000.75'')]\<rparr>],
      notifications = [(JNum ''1700000000000.75'',
                        \<lparr>element_of = 0, timeout = Some 2, resolve = None\<rparr>)],
      timers = [\<lparr>handle = 1, due = 100, action = AddShowClass 0\<rparr>,
                \<lparr>handle = 2, due = 3000, action = AutoHide (JNum ''1700000000000.75'')\<rparr>],
      next_timer = 3, next_element = 1, clock = 0, promises = []\<rparr>"
  by (simp add: loading_nm_def loading_def show_def empty_nm_def setTimeout_def Let_def
      defaultDuration_def NOTIFICATION_DURATION_def)

lemma same_timer_refl: "same_timer N t t"
  by (simp add: same_timer_def)

lemma same_queue_refl: "same_queue N ts ts"
  by (induction ts) (auto intro: same_queue.intros same_timer_refl)

lemma same_queue_filter:
  assumes "same_queue N ts us" and "h < N"
  shows "same_queue N (filter (\<lambda>t. handle t \<noteq> h) ts) (filter (\<lambda>t. handle t \<noteq> h) us)"
  using assms(1)
proof (induction rule: same_queue.induct)
  case Nil
  then show ?case by (simp add: same_queue.Nil)
next
  case (Cons t u ts us)
  then show ?case using assms(2)
    by (auto simp: same_timer_def intro: same_queue.Cons)
next
  case (Dup t u u' ts us)
  have "handle t = h \<longleftrightarrow> handle u = h" "handle t = h \<longleftrightarrow> handle u' = h"
    using Dup.hyps(1,2) assms(2) by (auto simp: same_timer_def)
  then show ?case using Dup
    by (auto intro: same_queue.Dup)
qed

lemma same_queue_enqueue:
  assumes "same_queue N ts us" and "same_timer N t u"
  shows "same_queue N (enqueue t ts) (enqueue u us)"
  using assms(1)
proof (induction rule: same_queue.induct)
  case Nil
  then show ?case using assms(2) by (simp add: same_queue.Cons same_queue.Nil)
next
  case (Cons t' u' ts us)
  have d: "due t' = due u'" "due t = due u" using Cons.hyps(1) assms(2) by (auto simp: same_timer_def)
  show ?case
  proof (cases "due t' \<le> due t")
    case True
    then show ?thesis using d Cons by (simp add: same_queue.Cons)
  next
    case False
    then show ?thesis using d Cons assms(2) by (simp add: same_queue.Cons)
  qed
next
  case (Dup t' u' u'' ts us)
  have d: "due t' = due u'" "due t' = due u''" "due t = due u"
    using Dup.hyps(1,2) assms(2) by (auto simp: same_timer_def)
  show ?case
  proof (cases "due t' \<le> due t")
    case True
    then show ?thesis using d Dup by (simp add: same_queue.Dup)
  next
    case False
    then show ?thesis using d Dup assms(2) by (simp add: same_queue.Dup same_queue.Cons)
  qed
qed

lemma same_queue_enqueue_twice:
  assumes "same_timer N t u" and "is_removal (action t)"
  shows "same_queue N (enqueue t ts) (enqueue u (enqueue t ts))"
proof (induction ts)
  case Nil
  have "due t \<le> due u" using assms(1) by (simp add: same_timer_def)
  then show ?case
    using assms by (simp add: same_queue.Dup same_queue.Nil same_timer_refl)
next
  case (Cons v vs)
  have d: "due t = due u" using assms(1) by (simp add: same_timer_def)
  show ?case
  proof (cases "due v \<le> due t")
    case True
    then show ?thesis using d Cons by (simp add: same_queue.Cons same_timer_refl)
  next
    case False
    then show ?thesis using d assms
      by (simp add: same_queue.Dup same_timer_refl same_queue_refl)
  qed
qed

lemma sim_hide:
  assumes "sim N a b"
  shows "sim N (hide a i) (hide b i)"
proof (cases "map_of (notifications a) i")
  case None
  then show ?thesis using assms by (simp add: hide_def sim_def)
next
  case (Some d)
  then have mem: "(i, d) \<in> set (notifications a)" by (rule map_of_SomeD)
  have nb: "map_of (notifications b) i = Some d" using Some assms by (simp add: sim_def)
  let ?a1 = "case timeout d of None \<Rightarrow> a | Some h \<Rightarrow> if h \<noteq> 0 then clearTimeout h a else a"
  let ?b1 = "case timeout d of None \<Rightarrow> b | Some h \<Rightarrow> if h \<noteq> 0 then clearTimeout h b else b"
  have s1: "sim N ?a1 ?b1"
  proof (cases "timeout d")
    case None
    then show ?thesis using assms by simp
  next
    case (Some h)
    then have "h < N" using mem assms by (auto simp: sim_def)
    then have "same_queue N (filter (\<lambda>t. handle t \<noteq> h) (timers a)) (filter (\<lambda>t. handle t \<noteq> h) (timers b))"
      using assms by (simp add: sim_def same_queue_filter)
    then show ?thesis using Some assms by (simp add: sim_def clearTimeout_def)
  qed
  let ?a2 = "set_shown (element_of d) False ?a1"
  let ?b2 = "set_shown (element_of d) False ?b1"
  have s2: "sim N ?a2 ?b2" using s1 by (simp add: sim_def set_shown_def)
  let ?ta = "\<lparr>handle = next_timer ?a2, due = clock ?a2 + 300, action = RemoveElement (element_of d) i\<rparr>"
  let ?tb = "\<lparr>handle = next_timer ?b2, due = clock ?b2 + 300, action = RemoveElement (element_of d) i\<rparr>"
  have "same_timer N ?ta ?tb" using s2 by (simp add: same_timer_def sim_def)
  then have "same_queue N (enqueue ?ta (timers ?a2)) (enqueue ?tb (timers ?b2))"
    using s2 by (simp add: sim_def same_queue_enqueue)
  then have "sim N (fst (setTimeout (RemoveElement (element_of d) i) 300 ?a2))
                   (fst (setTimeout (RemoveElement (element_of d) i) 300 ?b2))"
    using s2 by (simp add: sim_def setTimeout_def)
  then show ?thesis using Some nb by (simp add: hide_def Let_def)
qed

lemma sim_promises:
  "sim N a b \<Longrightarrow> sim N (a\<lparr>promises := ps\<rparr>) (b\<lparr>promises := ps\<rparr>)"
  by (simp add: sim_def)

lemma sim_handleConfirm:
  assumes "sim N a b"
  shows "sim N (handleConfirm a i r) (handleConfirm b i r)"
proof (cases "map_of (notifications a) i")
  case None
  then show ?thesis using assms by (simp add: handleConfirm_def sim_def)
next
  case (Some d)
  have nb: "map_of (notifications b) i = Some d" using Some assms by (simp add: sim_def)
  have pb: "promises b = promises a" using assms by (simp add: sim_def)
  show ?thesis
  proof (cases "resolve d")
    case None
    then show ?thesis using Some nb sim_hide [OF assms] by (simp add: handleConfirm_def)
  next
    case p: (Some p)
    show ?thesis
      using Some nb p pb sim_hide [OF sim_promises [OF assms, of "settle p r (promises a)"], of i]
      by (simp add: handleConfirm_def)
  qed
qed

lemma sim_remove_element:
  assumes "sim N a b"
  shows "sim N (remove_element el i a) (remove_element el i b)"
proof -
  have "set (AList.delete i (notifications a)) \<subseteq> set (notifications a)"
    by (auto simp: AList.delete_eq)
  then show ?thesis using assms by (auto simp: sim_def remove_element_def)
qed

lemma sim_fire:
  assumes "sim N a b"
  shows "sim N (fire act a) (fire act b)"
proof (cases act)
  case (AddShowClass el)
  then show ?thesis using assms by (simp add: sim_def set_shown_def)
next
  case (AutoHide i)
  then show ?thesis using sim_hide [OF assms] by simp
next
  case (RemoveElement el i)
  then show ?thesis using sim_remove_element [OF assms] by simp
next
  case (AutoCancel i)
  have "notifications a = notifications b" using assms by (simp add: sim_def)
  then show ?thesis using AutoCancel sim_handleConfirm [OF assms] assms by simp
qed

lemma remove_element_twice:
  "remove_element el i (remove_element el i s) = remove_element el i s"
  by (simp add: remove_element_def delete_idem)

lemma sim_step:
  assumes "sim N a b" and "timers a \<noteq> []"
  shows "timers b \<noteq> [] \<and>
         (sim N (fire_next a) (fire_next b)
          \<or> (timers (fire_next b) \<noteq> [] \<and> sim N (fire_next a) (fire_next (fire_next b))))"
proof -
  have q: "same_queue N (timers a) (timers b)" using assms(1) by (simp add: sim_def)
  from q assms(2) show ?thesis
  proof (cases rule: same_queue.cases)
    case Nil
    then show ?thesis using assms(2) by simp
  next
    case (Cons t u ts us)
    let ?a0 = "a\<lparr>timers := ts, clock := max (clock a) (due t)\<rparr>"
    let ?b0 = "b\<lparr>timers := us, clock := max (clock b) (due u)\<rparr>"
    have "sim N ?a0 ?b0" using assms(1) Cons by (simp add: sim_def same_timer_def)
    then have "sim N (fire (action t) ?a0) (fire (action t) ?b0)" by (rule sim_fire)
    moreover have "action u = action t" using Cons by (simp add: same_timer_def)
    ultimately show ?thesis using Cons by (simp add: fire_next_def)
  next
    case (Dup t u u' ts us)
    obtain el i where act: "action t = RemoveElement el i"
      using Dup(5) by (cases "action t") auto
    have au: "action u = RemoveElement el i" "action u' = RemoveElement el i"
      "due u = due t" "due u' = due t"
      using Dup act by (simp_all add: same_timer_def)
    let ?a0 = "a\<lparr>timers := ts, clock := max (clock a) (due t)\<rparr>"
    let ?b0 = "b\<lparr>timers := us, clock := max (clock b) (due t)\<rparr>"
    have s0: "sim N ?a0 ?b0" using assms(1) Dup by (simp add: sim_def)
    have fa: "fire_next a = remove_element el i ?a0"
      using Dup act by (simp add: fire_next_Cons)
    let ?b1 = "b\<lparr>timers := u' # us, clock := max (clock b) (due t)\<rparr>"
    have fb: "fire_next b = remove_element el i ?b1"
      using Dup au by (simp add: fire_next_Cons)
    then have tb: "timers (fire_next b) = u' # us" by (simp add: remove_element_def)
    have "fire_next (fire_next b)
        = fire (action u') ((fire_next b)\<lparr>timers := us, clock := max (clock (fire_next b)) (due u')\<rparr>)"
      using tb by (rule fire_next_Cons)
    also have "\<dots> = remove_element el i (remove_element el i ?b0)"
      using au by (simp add: fb remove_element_def)
    finally have fbb: "fire_next (fire_next b) = remove_element el i ?b0"
      by (simp add: remove_element_twice)
    have "sim N (fire_next a) (fire_next (fire_next b))"
      using sim_remove_element [OF s0] by (simp add: fa fbb)
    then show ?thesis using Dup tb by simp
  qed
qed

lemma sim_run:
  "sim N a b \<Longrightarrow>
     container (run a) = container (run b) \<and> notifications (run a) = notifications (run b)
     \<and> promises (run a) = promises (run b)"
proof (induction a arbitrary: b rule: run.induct)
  case (1 a)
  show ?case
  proof (cases "timers a = []")
    case True
    then have "timers b = []" using "1.prems" by (auto simp: sim_def elim: same_queue.cases)
    then show ?thesis using True "1.prems" by (simp add: run.simps [of a] run.simps [of b] sim_def)
  next
    case False
    from sim_step [OF "1.prems" False]
    have nb: "timers b \<noteq> []"
      and alt: "sim N (fire_next a) (fire_next b)
          \<or> (timers (fire_next b) \<noteq> [] \<and> sim N (fire_next a) (fire_next (fire_next b)))"
      by blast+
    have ra: "run a = run (fire_next a)" using False by (simp add: run.simps [of a])
    have rb: "run b = run (fire_next b)" using nb by (simp add: run.simps [of b])
    from alt show ?thesis
    proof
      assume "sim N (fire_next a) (fire_next b)"
      from "1.IH" [OF False this] show ?thesis by (simp add: ra rb)
    next
      assume h: "timers (fire_next b) \<noteq> [] \<and> sim N (fire_next a) (fire_next (fire_next b))"
      then have "run (fire_next b) = run (fire_next (fire_next b))"
        by (simp add: run.simps [of "fire_next b"])
      with "1.IH" [OF False conjunct2 [OF h]] show ?thesis by (simp add: ra rb)
    qed
  qed
qed

subsection \<open>Hiding twice\<close>

lemma run_hide_shown_nm:
  "notifications (run (hide shown_nm (JNum ''1700000000000.5''))) = []
   \<and> container (run (hide shown_nm (JNum ''1700000000000.5''))) = []"
proof -
  let ?h = "hide shown_nm (JNum ''1700000000000.5'')"
  have r0: "?h =
     \<lparr>container = [\<lparr>elem = 0, className = ''notification success'', shown = False,
                     dataset_id = ''1700000000000.5'',
                     span_text = ''QR code generated successfully!'',
                     buttons = [(CloseButton, ''1700000000000.5'')]\<rparr>],
      notifications = [(JNum ''1700000000000.5'',
                        \<lparr>element_of = 0, timeout = Some 2, resolve = None\<rparr>)],
      timers = [\<lparr>handle = 1, due = 100, action = AddShowClass 0\<rparr>,
                \<lparr>handle = 3, due = 300, action = RemoveElement 0 (JNum ''1700000000000.5'')\<rparr>],
      next_timer = 4, next_element = 1, clock = 0, promises = []\<rparr>"
    by (simp add: shown_nm_eq hide_def set_shown_def setTimeout_def clearTimeout_def Let_def)
  have r1: "fire_next ?h =
     \<lparr>container = [\<lparr>elem = 0, className = ''notification success'', shown = True,
                     dataset_id = ''1700000000000.5'',
                     span_text = ''QR code generated successfully!'',
                     buttons = [(CloseButton, ''1700000000000.5'')]\<rparr>],
      notifications = [(JNum ''1700000000000.5'',
                        \<lparr>element_of = 0, timeout = Some 2, resolve = None\<rparr>)],
      timers = [\<lparr>handle = 3, due = 300, action = RemoveElement 0 (JNum ''1700000000000.5'')\<rparr>],
      next_timer = 4, next_element = 1, clock = 100, promises = []\<rparr>"
    by (simp only: r0) (simp add: fire_next_def set_shown_def)
  have r2: "fire_next (fire_next ?h) =
     \<lparr>container = [], notifications = [], timers = [],
      next_timer = 4, next_element = 1, clock = 300, promises = []\<rparr>"
    by (simp only: r1) (simp add: fire_next_def remove_element_def)
  have "run ?h = run (fire_next ?h)"
    by (rule run_Cons) (simp add: r0)
  also have "\<dots> = run (fire_next (fire_next ?h))"
    by (rule run_Cons) (simp add: r1)
  also have "\<dots> = fire_next (fire_next ?h)"
    by (rule run_Nil) (simp add: r2)
  finally show ?thesis by (simp add: r2)
qed

text \<open>
  C7. \<^verbatim>\<open>hide\<close> on an id that is not in the map changes nothing. In a state whose
  entries keep only handles that were handed out, hiding an id twice and letting all
  timers fire ends with the map, the container and the promises that hiding it once
  ends with: the second removal finds the element gone and the id deleted.
\<close>

theorem hide_twice:
  assumes "handles_ok s"
  shows "(map_of (notifications s) i = None \<longrightarrow> hide s i = s)
         \<and> notifications (run (hide (hide s i) i)) = notifications (run (hide s i))
         \<and> container (run (hide (hide s i) i)) = container (run (hide s i))
         \<and> promises (run (hide (hide s i) i)) = promises (run (hide s i))"
proof (cases "map_of (notifications s) i")
  case None
  then show ?thesis by (simp add: hide_def)
next
  case (Some d)
  let ?N = "next_timer s"
  have bound: "\<forall>k e h. (k, e) \<in> set (notifications s) \<longrightarrow> timeout e = Some h \<longrightarrow> h < ?N"
    using assms by (auto simp: handles_ok_def list_all_iff split: option.splits)
  have mem: "(i, d) \<in> set (notifications s)" using Some by (rule map_of_SomeD)
  define T where "T = (case timeout d of None \<Rightarrow> timers s
        | Some h \<Rightarrow> if h \<noteq> 0 then filter (\<lambda>t. handle t \<noteq> h) (timers s) else timers s)"
  define C where "C = map (\<lambda>e. if elem e = element_of d then e\<lparr>shown := False\<rparr> else e) (container s)"
  define R1 where "R1 = \<lparr>handle = ?N, due = clock s + 300, action = RemoveElement (element_of d) i\<rparr>"
  define R2 where "R2 = \<lparr>handle = Suc ?N, due = clock s + 300, action = RemoveElement (element_of d) i\<rparr>"
  have h1: "hide s i = s\<lparr>container := C, timers := enqueue R1 T, next_timer := Suc ?N\<rparr>"
    using Some
    by (auto simp: hide_def Let_def setTimeout_def set_shown_def clearTimeout_def T_def C_def R1_def
        split: option.splits)
  have flt: "filter (\<lambda>t. handle t \<noteq> h) (enqueue R1 T) = enqueue R1 T"
    if "timeout d = Some h" "h \<noteq> 0" for h
  proof -
    have "h < ?N" using bound mem that by blast
    then have "handle R1 \<noteq> h" by (simp add: R1_def)
    moreover have "filter (\<lambda>t. handle t \<noteq> h) T = T" using that by (simp add: T_def)
    ultimately show ?thesis by (simp add: filter_enqueue_all)
  qed
  have C2: "map (\<lambda>e. if elem e = element_of d then e\<lparr>shown := False\<rparr> else e) C = C"
    by (simp add: C_def)
  define s1 where "s1 = s\<lparr>container := C, timers := enqueue R1 T, next_timer := Suc ?N\<rparr>"
  have n1: "map_of (notifications s1) i = Some d" using Some by (simp add: s1_def)
  have "hide s1 i = s\<lparr>container := C, timers := enqueue R2 (enqueue R1 T), next_timer := Suc (Suc ?N)\<rparr>"
    using n1 flt
    by (auto simp: hide_def Let_def setTimeout_def set_shown_def clearTimeout_def C2 R2_def s1_def
        split: option.splits)
  then have h2: "hide (hide s i) i = s\<lparr>container := C, timers := enqueue R2 (enqueue R1 T), next_timer := Suc (Suc ?N)\<rparr>"
    by (simp only: h1 s1_def)
  have "same_timer ?N R1 R2" by (simp add: same_timer_def R1_def R2_def)
  moreover have "is_removal (action R1)" by (simp add: R1_def)
  ultimately have "same_queue ?N (enqueue R1 T) (enqueue R2 (enqueue R1 T))"
    by (rule same_queue_enqueue_twice)
  then have "sim ?N (s\<lparr>container := C, timers := enqueue R1 T, next_timer := Suc ?N\<rparr>)
      (s\<lparr>container := C, timers := enqueue R2 (enqueue R1 T), next_timer := Suc (Suc ?N)\<rparr>)"
    using bound by (simp add: sim_def)
  then have "sim ?N (hide s i) (hide (hide s i) i)"
    by (simp only: h2) (simp only: h1)
  from sim_run [OF this] show ?thesis using Some by simp
qed

theorem hide_twice_witness:
  "handles_ok shown_nm
   \<and> notifications (run (hide (hide shown_nm (JNum ''1700000000000.5'')) (JNum ''1700000000000.5''))) = []
   \<and> container (run (hide (hide shown_nm (JNum ''1700000000000.5'')) (JNum ''1700000000000.5''))) = []
   \<and> map_of (notifications shown_nm) (JStr ''1700000000000.5'') = None
   \<and> hide shown_nm (JStr ''1700000000000.5'') = shown_nm"
proof -
  have h: "handles_ok shown_nm" by (simp add: handles_ok_def shown_nm_eq)
  have n: "map_of (notifications shown_nm) (JStr ''1700000000000.5'') = None"
    by (simp add: shown_nm_eq)
  show ?thesis
    using h n run_hide_shown_nm hide_twice [OF h, of "JNum ''1700000000000.5''"]
      hide_twice [OF h, of "JStr ''1700000000000.5''"]
    by simp
qed

subsection \<open>Confirmation\<close>

text \<open>
  C1. A confirmation is open and its element is shown. A click on its confirm button
  calls \<^verbatim>\<open>handleConfirm\<close> with the id as a string, which is not a key of the map: the
  state is unchanged and the promise stays pending. When the timers have run, the
  10-second callback has resolved the promise with false. Called with the id as the
  number, \<^verbatim>\<open>handleConfirm\<close> resolves the promise with true.
\<close>

theorem confirm_click_is_ignored:
  "click 0 YesButton confirm_nm = confirm_nm
   \<and> promises (click 0 YesButton confirm_nm) = [None]
   \<and> promises (run (click 0 YesButton confirm_nm)) = [Some False]
   \<and> promises (handleConfirm confirm_nm (JNum ''1700000000000.25'') True) = [Some True]"
proof -
  have c: "click 0 YesButton confirm_nm = confirm_nm"
    by (simp add: confirm_nm_eq click_def handleConfirm_def)
  have p: "promises confirm_nm = [None]" by (simp add: confirm_nm_eq)
  have r1: "fire_next confirm_nm =
      \<lparr>container = [\<lparr>elem = 0, className = ''notification confirm-notification info'',
                     shown = False, dataset_id = ''1700000000000.25'',
                     span_text = ''Are you sure you want to delete this QR code?'',
                     buttons = [(YesButton, ''1700000000000.25''),
                                (NoButton, ''1700000000000.25'')]\<rparr>],
      notifications = [(JNum ''1700000000000.25'',
                        \<lparr>element_of = 0, timeout = None, resolve = Some 0\<rparr>)],
      timers = [\<lparr>handle = 3, due = 10300,
                  action = RemoveElement 0 (JNum ''1700000000000.25'')\<rparr>],
      next_timer = 4, next_element = 1, clock = 10000, promises = [Some False]\<rparr>"
    by (simp add: confirm_nm_eq fire_next_def handleConfirm_def hide_def settle_def set_shown_def
        setTimeout_def Let_def)
  have r2: "fire_next (fire_next confirm_nm) =
      \<lparr>container = [], notifications = [], timers = [],
      next_timer = 4, next_element = 1, clock = 10300, promises = [Some False]\<rparr>"
    by (simp only: r1) (simp add: fire_next_def remove_element_def)
  have "run confirm_nm = run (fire_next confirm_nm)"
    by (rule run_Cons) (simp add: confirm_nm_eq)
  also have "\<dots> = run (fire_next (fire_next confirm_nm))"
    by (rule run_Cons) (simp add: r1)
  also have "\<dots> = fire_next (fire_next confirm_nm)"
    by (rule run_Nil) (simp add: r2)
  finally have r: "promises (run confirm_nm) = [Some False]" by (simp add: r2)
  have h: "promises (handleConfirm confirm_nm (JNum ''1700000000000.25'') True) = [Some True]"
    by (simp add: confirm_nm_eq handleConfirm_def hide_def settle_def set_shown_def
        setTimeout_def Let_def)
  show ?thesis by (simp add: c p r h)
qed

subsection \<open>Loading notifications\<close>

lemma run_loading_nm:
  "run loading_nm =
     \<lparr>container = [], notifications = [], timers = [],
      next_timer = 4, next_element = 1, clock = 3300, promises = []\<rparr>"
proof -
  have r1: "fire_next loading_nm =
     \<lparr>container = [\<lparr>elem = 0, className = ''notification info'', shown = True,
                     dataset_id = ''1700000000000.75'', span_text = ''Saving...'',
                     buttons = [(CloseButton, ''1700000000000.75'')]\<rparr>],
      notifications = [(JNum ''1700000000000.75'',
                        \<lparr>element_of = 0, timeout = Some 2, resolve = None\<rparr>)],
      timers = [\<lparr>handle = 2, due = 3000, action = AutoHide (JNum ''1700000000000.75'')\<rparr>],
      next_timer = 3, next_element = 1, clock = 100, promises = []\<rparr>"
    by (simp add: loading_nm_eq fire_next_def set_shown_def)
  have r2: "fire_next (fire_next loading_nm) =
     \<lparr>container = [\<lparr>elem = 0, className = ''notification info'', shown = False,
                     dataset_id = ''1700000000000.75'', span_text = ''Saving...'',
                     buttons = [(CloseButton, ''1700000000000.75'')]\<rparr>],
      notifications = [(JNum ''1700000000000.75'',
                        \<lparr>element_of = 0, timeout = Some 2, resolve = None\<rparr>)],
      timers = [\<lparr>handle = 3, due = 3300,
                  action = RemoveElement 0 (JNum ''1700000000000.75'')\<rparr>],
      next_timer = 4, next_element = 1, clock = 3000, promises = []\<rparr>"
    by (simp only: r1) (simp add: fire_next_def hide_def set_shown_def setTimeout_def clearTimeout_def Let_def)
  have r3: "fire_next (fire_next (fire_next loading_nm)) =
     \<lparr>container = [], notifications = [], timers = [],
      next_timer = 4, next_element = 1, clock = 3300, promises = []\<rparr>"
    by (simp only: r2) (simp add: fire_next_def remove_element_def)
  have "run loading_nm = run (fire_next loading_nm)"
    by (rule run_Cons) (simp add: loading_nm_eq)
  also have "\<dots> = run (fire_next (fire_next loading_nm))"
    by (rule run_Cons) (simp add: r1)
  also have "\<dots> = run (fire_next (fire_next (fire_next loading_nm)))"
    by (rule run_Cons) (simp add: r2)
  also have "\<dots> = fire_next (fire_next (fire_next loading_nm))"
    by (rule run_Nil) (simp add: r3)
  finally show ?thesis by (simp add: r3)
qed

text \<open>
  C9, as stated, fails: after \<^verbatim>\<open>loading\<close> the entry keeps the handle of an auto-hide
  timer due at 3000 ms, and when the timers have run, with no call on the handle
  object, the map and the container are empty.
\<close>

theorem loading_is_removed_by_its_timer:
  "map_of (notifications loading_nm) (JNum ''1700000000000.75'')
     = Some \<lparr>element_of = 0, timeout = Some 2, resolve = None\<rparr>
   \<and> \<lparr>handle = 2, due = 3000, action = AutoHide (JNum ''1700000000000.75'')\<rparr>
       \<in> set (timers loading_nm)
   \<and> notifications (run loading_nm) = []
   \<and> container (run loading_nm) = []"
  by (simp add: run_loading_nm) (simp add: loading_nm_eq)

lemma hide_notifications [simp]: "notifications (hide u i) = notifications u"
  by (simp add: hide_def setTimeout_def set_shown_def clearTimeout_def Let_def
      split: option.splits)

lemma hide_next_timer: "next_timer u \<le> next_timer (hide u i)"
  by (simp add: hide_def setTimeout_def set_shown_def clearTimeout_def Let_def
      split: option.splits)

lemma bounded_hide: "bounded_handles N u \<Longrightarrow> bounded_handles N (hide u i)"
  using hide_next_timer [of u i] by (simp add: bounded_handles_def)

lemma hide_timers:
  "map_of (notifications u) i = Some d \<Longrightarrow>
     \<exists>T. timers (hide u i)
           = enqueue \<lparr>handle = next_timer u, due = clock u + 300,
                      action = RemoveElement (element_of d) i\<rparr> T
         \<and> (\<forall>t \<in> set (timers u). timeout d \<noteq> Some (handle t) \<longrightarrow> t \<in> set T)"
  by (auto simp: hide_def setTimeout_def set_shown_def clearTimeout_def Let_def
      split: option.splits)

lemma hide_own:
  assumes "bounded_handles N u"
  shows "leaving N k (hide u k)"
proof (cases "map_of (notifications u) k")
  case None
  then show ?thesis using assms by (simp add: leaving_def hide_def)
next
  case (Some d)
  from hide_timers [OF Some] obtain T where
    "timers (hide u k) = enqueue \<lparr>handle = next_timer u, due = clock u + 300,
                      action = RemoveElement (element_of d) k\<rparr> T" by blast
  then have "\<lparr>handle = next_timer u, due = clock u + 300,
       action = RemoveElement (element_of d) k\<rparr> \<in> set (timers (hide u k))"
    by (simp add: set_enqueue)
  moreover have "N \<le> next_timer u" using assms by (simp add: bounded_handles_def)
  ultimately have "\<exists>t \<in> set (timers (hide u k)). (\<exists>el. action t = RemoveElement el k) \<and> N \<le> handle t"
    by force
  then show ?thesis using bounded_hide [OF assms] by (simp add: leaving_def)
qed

lemma leaving_hide:
  assumes "leaving N k u"
  shows "leaving N k (hide u i)"
proof (cases "i = k")
  case True
  then show ?thesis using assms hide_own by (simp add: leaving_def)
next
  case False
  have b: "bounded_handles N u" using assms by (simp add: leaving_def)
  show ?thesis
  proof (cases "map_of (notifications u) i")
    case None
    then show ?thesis using assms by (simp add: hide_def)
  next
    case (Some d)
    then have mem: "(i, d) \<in> set (notifications u)" by (rule map_of_SomeD)
    from hide_timers [OF Some] obtain T where
      T: "timers (hide u i) = enqueue \<lparr>handle = next_timer u, due = clock u + 300,
                      action = RemoveElement (element_of d) i\<rparr> T"
      and keep: "\<forall>t \<in> set (timers u). timeout d \<noteq> Some (handle t) \<longrightarrow> t \<in> set T" by blast
    have sub: "t \<in> set (timers (hide u i))" if "t \<in> set (timers u)" "timeout d \<noteq> Some (handle t)" for t
      using that keep by (simp add: T set_enqueue)
    from assms consider
      (gone) "map_of (notifications u) k = None"
      | (rem) t where "t \<in> set (timers u)" "\<exists>el. action t = RemoveElement el k" "N \<le> handle t"
      | (auto) t where "t \<in> set (timers u)" "action t = AutoHide k"
          "\<forall>k' e. (k', e) \<in> set (notifications u) \<longrightarrow> timeout e = Some (handle t) \<longrightarrow> k' = k"
      by (auto simp: leaving_def)
    then show ?thesis
    proof cases
      case gone
      then show ?thesis using bounded_hide [OF b] by (simp add: leaving_def)
    next
      case rem
      have "timeout d \<noteq> Some (handle t)"
        using b mem rem(3) by (fastforce simp: bounded_handles_def)
      from sub [OF rem(1) this] rem(2,3) show ?thesis
        using bounded_hide [OF b] by (auto simp: leaving_def)
    next
      case auto
      have "timeout d \<noteq> Some (handle t)" using auto(3) mem False by blast
      from sub [OF auto(1) this] auto(2,3) show ?thesis
        using bounded_hide [OF b] by (auto simp: leaving_def)
    qed
  qed
qed

lemma leaving_promises: "leaving N k u \<Longrightarrow> leaving N k (u\<lparr>promises := ps\<rparr>)"
  by (simp add: leaving_def bounded_handles_def)

lemma leaving_handleConfirm: "leaving N k u \<Longrightarrow> leaving N k (handleConfirm u i r)"
  by (auto simp: handleConfirm_def leaving_hide leaving_promises split: option.splits)

lemma set_delete_subset: "set (AList.delete i al) \<subseteq> set al"
  by (auto simp: AList.delete_eq)

lemma bounded_remove: "bounded_handles N u \<Longrightarrow> bounded_handles N (remove_element el i u)"
  using set_delete_subset [of i "notifications u"]
  by (auto simp: bounded_handles_def remove_element_def)

lemma remove_own: "bounded_handles N u \<Longrightarrow> leaving N k (remove_element el k u)"
  using bounded_remove [of N u el k]
  by (simp add: leaving_def) (simp add: remove_element_def delete_conv')

lemma leaving_remove:
  assumes "leaving N k u"
  shows "leaving N k (remove_element el i u)"
proof (cases "i = k")
  case True
  then show ?thesis using assms remove_own by (simp add: leaving_def)
next
  case False
  have "map_of (notifications (remove_element el i u)) k = map_of (notifications u) k"
    using False by (simp add: remove_element_def)
  moreover have "timers (remove_element el i u) = timers u" by (simp add: remove_element_def)
  moreover have "set (notifications (remove_element el i u)) \<subseteq> set (notifications u)"
    using set_delete_subset by (simp add: remove_element_def)
  ultimately show ?thesis
    using assms bounded_remove [of N u el i]
    by (simp add: leaving_def) blast
qed

lemma leaving_fire: "leaving N k u \<Longrightarrow> leaving N k (fire act u)"
  by (cases act)
    (auto simp: leaving_hide leaving_remove leaving_handleConfirm,
     simp add: leaving_def bounded_handles_def set_shown_def)

lemma leaving_step:
  assumes "leaving N k u" and "timers u \<noteq> []"
  shows "leaving N k (fire_next u)"
proof -
  obtain t0 ts where ts: "timers u = t0 # ts" using assms(2) by (cases "timers u") auto
  let ?u0 = "u\<lparr>timers := ts, clock := max (clock u) (due t0)\<rparr>"
  have f: "fire_next u = fire (action t0) ?u0" using ts by (rule fire_next_Cons)
  have b: "bounded_handles N ?u0" using assms(1) by (simp add: leaving_def bounded_handles_def)
  from assms(1) consider
    (gone) "map_of (notifications u) k = None"
    | (rem) t where "t \<in> set (timers u)" "\<exists>el. action t = RemoveElement el k" "N \<le> handle t"
    | (auto) t where "t \<in> set (timers u)" "action t = AutoHide k"
        "\<forall>k' e. (k', e) \<in> set (notifications u) \<longrightarrow> timeout e = Some (handle t) \<longrightarrow> k' = k"
    by (auto simp: leaving_def)
  then show ?thesis
  proof cases
    case gone
    then have "leaving N k ?u0" using b by (simp add: leaving_def)
    then show ?thesis by (simp add: f leaving_fire)
  next
    case rem
    show ?thesis
    proof (cases "t = t0")
      case True
      then obtain el where "action t0 = RemoveElement el k" using rem(2) by blast
      then show ?thesis using remove_own [OF b] by (simp add: f)
    next
      case False
      then have "t \<in> set ts" using rem(1) ts by simp
      then have "leaving N k ?u0" using b rem(2,3) by (auto simp: leaving_def)
      then show ?thesis by (simp add: f leaving_fire)
    qed
  next
    case auto
    show ?thesis
    proof (cases "t = t0")
      case True
      then have "action t0 = AutoHide k" using auto(2) by simp
      then show ?thesis using hide_own [OF b] by (simp add: f)
    next
      case False
      then have "t \<in> set ts" using auto(1) ts by simp
      then have "leaving N k ?u0" using b auto(2,3) by (auto simp: leaving_def)
      then show ?thesis by (simp add: f leaving_fire)
    qed
  qed
qed

lemma leaving_run:
  "leaving N k u \<Longrightarrow> map_of (notifications (run u)) k = None"
proof (induction u rule: run.induct)
  case (1 u)
  show ?case
  proof (cases "timers u = []")
    case True
    then show ?thesis using "1.prems" by (auto simp: run.simps [of u] leaving_def)
  next
    case False
    from "1.IH" [OF False leaving_step [OF "1.prems" False]]
    show ?thesis using False by (simp add: run.simps [of u])
  qed
qed

lemma set_update_subset: "set (AList.update k v al) \<subseteq> insert (k, v) (set al)"
  by (induction al) auto

lemma show_state:
  "fst (show msg type duration n s) =
     s\<lparr>container := container s @
          [\<lparr>elem = next_element s, className = ''notification '' @ type, shown = False,
            dataset_id = n, span_text = msg, buttons = [(CloseButton, n)]\<rparr>],
       next_element := Suc (next_element s),
       notifications := AList.update (JNum n)
          \<lparr>element_of = next_element s, timeout = Some (Suc (next_timer s)), resolve = None\<rparr>
          (notifications s),
       timers := enqueue \<lparr>handle = Suc (next_timer s),
                          due = clock s + (case duration of None \<Rightarrow> defaultDuration
                                           | Some d \<Rightarrow> if d \<noteq> 0 then d else defaultDuration),
                          action = AutoHide (JNum n)\<rparr>
                   (enqueue \<lparr>handle = next_timer s, due = clock s + 100,
                             action = AddShowClass (next_element s)\<rparr> (timers s)),
       next_timer := Suc (Suc (next_timer s))\<rparr>"
  by (simp add: show_def Let_def setTimeout_def update_conv')

text \<open>
  C9, amended. \<^verbatim>\<open>loading\<close> is \<^verbatim>\<open>show\<close> with the default duration of 3000 ms: the
  auto-hide timer of the notification is pending, due 3000 ms later, and once the
  timers have run the notification is no longer in the map, whatever else was pending.
  \<^verbatim>\<open>success\<close> on the handle object hides the notification and shows a success
  notification, \<^verbatim>\<open>error\<close> an error notification.
\<close>

theorem loading_is_auto_hidden:
  assumes "handles_ok s"
  shows "fst (loading msg n s) = fst (show msg ''info'' (Some 3000) n s)
         \<and> \<lparr>handle = Suc (next_timer s), due = clock s + 3000, action = AutoHide (JNum n)\<rparr>
             \<in> set (timers (fst (loading msg n s)))
         \<and> map_of (notifications (run (fst (loading msg n s)))) (JNum n) = None
         \<and> loading_success (snd (loading msg n s)) m n' u
             = fst (show m ''success'' None n' (hide u (JNum n)))
         \<and> loading_error (snd (loading msg n s)) m n' u
             = fst (show m ''error'' None n' (hide u (JNum n)))"
proof -
  let ?s1 = "fst (loading msg n s)"
  let ?N = "Suc (Suc (next_timer s))"
  let ?e = "\<lparr>element_of = next_element s, timeout = Some (Suc (next_timer s)), resolve = None\<rparr>"
  let ?t = "\<lparr>handle = Suc (next_timer s), due = clock s + 3000, action = AutoHide (JNum n)\<rparr>"
  have l: "?s1 = fst (show msg ''info'' None n s)"
    by (simp add: loading_def Let_def case_prod_beta)
  have d: "defaultDuration = 3000" by (simp add: defaultDuration_def NOTIFICATION_DURATION_def)
  have a: "?s1 = fst (show msg ''info'' (Some 3000) n s)"
    by (simp add: l show_state d)
  have old: "h < next_timer s" if "(k, e) \<in> set (notifications s)" "timeout e = Some h" for k e h
    using assms that by (auto simp: handles_ok_def list_all_iff)
  have ents: "set (notifications ?s1) \<subseteq> insert (JNum n, ?e) (set (notifications s))"
    by (simp add: l show_state set_update_subset)
  have t: "?t \<in> set (timers ?s1)"
    by (simp add: l show_state set_enqueue d)
  have b: "bounded_handles ?N ?s1"
    unfolding bounded_handles_def
  proof (intro conjI allI impI)
    show "?N \<le> next_timer ?s1" by (simp add: l show_state)
  next
    fix k e h
    assume "(k, e) \<in> set (notifications ?s1)" and h: "timeout e = Some h"
    then have "(k, e) = (JNum n, ?e) \<or> (k, e) \<in> set (notifications s)" using ents by blast
    then show "h < ?N"
    proof
      assume "(k, e) = (JNum n, ?e)"
      then show ?thesis using h by auto
    next
      assume "(k, e) \<in> set (notifications s)"
      from old [OF this h] show ?thesis by simp
    qed
  qed
  have safe: "k' = JNum n"
    if "(k', e) \<in> set (notifications ?s1)" "timeout e = Some (handle ?t)" for k' e
  proof -
    from that(1) have "(k', e) = (JNum n, ?e) \<or> (k', e) \<in> set (notifications s)" using ents by blast
    then show ?thesis
    proof
      assume "(k', e) = (JNum n, ?e)"
      then show ?thesis by simp
    next
      assume "(k', e) \<in> set (notifications s)"
      from old [OF this, of "Suc (next_timer s)"] that(2) show ?thesis by simp
    qed
  qed
  have "leaving ?N (JNum n) ?s1"
    unfolding leaving_def using b t safe by (intro conjI disjI2 bexI [of _ ?t]) auto
  have i: "fst (snd (loading msg n s)) = JNum n"
    by (simp add: loading_def show_def Let_def case_prod_beta)
  have "loading_success (snd (loading msg n s)) m n' u
             = fst (show m ''success'' None n' (hide u (JNum n)))"
    and "loading_error (snd (loading msg n s)) m n' u
             = fst (show m ''error'' None n' (hide u (JNum n)))"
    by (simp_all only: loading_success_def loading_error_def success_def error_def i)
  with leaving_run [OF \<open>leaving ?N (JNum n) ?s1\<close>] a t show ?thesis by simp
qed

theorem loading_is_auto_hidden_witness:
  "handles_ok empty_nm
   \<and> loading_nm = fst (show ''Saving...'' ''info'' (Some 3000) ''1700000000000.75'' empty_nm)
   \<and> map_of (notifications (run loading_nm)) (JNum ''1700000000000.75'') = None"
proof -
  have h: "handles_ok empty_nm" by (simp add: handles_ok_def empty_nm_def)
  have a: "fst (loading ''Saving...'' ''1700000000000.75'' empty_nm)
        = fst (show ''Saving...'' ''info'' (Some 3000) ''1700000000000.75'' empty_nm)"
    and r: "map_of (notifications (run (fst (loading ''Saving...'' ''1700000000000.75'' empty_nm))))
        (JNum ''1700000000000.75'') = None"
    using loading_is_auto_hidden [OF h, of "''Saving...''" "''1700000000000.75''"] by blast+
  from a have a': "loading_nm = fst (show ''Saving...'' ''info'' (Some 3000) ''1700000000000.75'' empty_nm)"
    by (simp only: loading_nm_def)
  from r have r': "map_of (notifications (run loading_nm)) (JNum ''1700000000000.75'') = None"
    by (simp only: loading_nm_def)
  from h a' r' show ?thesis by blast
qed

subsection \<open>Handles kept in entries\<close>

text \<open>The property assumed of a state below holds of the empty manager and is kept by
  every operation and by every timer that fires.\<close>

lemma handles_ok_iff:
  "handles_ok s \<longleftrightarrow>
     (\<forall>k e h. (k, e) \<in> set (notifications s) \<longrightarrow> timeout e = Some h \<longrightarrow> h < next_timer s)"
  by (auto simp: handles_ok_def list_all_iff split: option.splits)

lemma handles_ok_empty: "handles_ok empty_nm"
  by (simp add: handles_ok_def empty_nm_def)

lemma handles_ok_hide: "handles_ok s \<Longrightarrow> handles_ok (hide s i)"
  using hide_next_timer [of s i] by (fastforce simp: handles_ok_iff)

lemma handles_ok_handleConfirm: "handles_ok s \<Longrightarrow> handles_ok (handleConfirm s i r)"
proof -
  have "handles_ok (u\<lparr>promises := ps\<rparr>) = handles_ok u" for u ps
    by (simp add: handles_ok_iff)
  then show "handles_ok s \<Longrightarrow> handles_ok (handleConfirm s i r)"
    by (auto simp: handleConfirm_def handles_ok_hide split: option.splits)
qed

lemma handles_ok_show: "handles_ok s \<Longrightarrow> handles_ok (fst (show msg type duration n s))"
  unfolding handles_ok_iff show_state
  using set_update_subset [of "JNum n" _ "notifications s"]
  by (auto dest!: subsetD) (fastforce dest: less_SucI)+

lemma handles_ok_click: "handles_ok s \<Longrightarrow> handles_ok (click el b s)"
  by (auto simp: click_def handles_ok_hide handles_ok_handleConfirm
      split: option.splits button.splits)

lemma handles_ok_fire_next: "handles_ok s \<Longrightarrow> handles_ok (fire_next s)"
proof (cases "timers s")
  case Nil
  then show "handles_ok s \<Longrightarrow> handles_ok (fire_next s)" by (simp add: fire_next_def)
next
  case (Cons t ts)
  assume ok: "handles_ok s"
  let ?s0 = "s\<lparr>timers := ts, clock := max (clock s) (due t)\<rparr>"
  have ok0: "handles_ok ?s0" using ok by (simp add: handles_ok_iff)
  have "handles_ok (fire a ?s0)" for a
  proof (cases a)
    case (AddShowClass el)
    then show ?thesis using ok0 by (simp add: handles_ok_iff set_shown_def)
  next
    case (AutoHide i)
    then show ?thesis using ok0 by (simp add: handles_ok_hide)
  next
    case (RemoveElement el i)
    then show ?thesis using ok0 set_delete_subset [of i "notifications s"]
      by (auto simp: handles_ok_iff remove_element_def)
  next
    case (AutoCancel i)
    then show ?thesis using ok0 by (simp add: handles_ok_handleConfirm)
  qed
  then show "handles_ok (fire_next s)" using Cons by (simp add: fire_next_Cons)
qed

lemma handles_ok_confirm: "handles_ok s \<Longrightarrow> handles_ok (fst (confirm msg type n s))"
proof -
  assume ok: "handles_ok s"
  let ?e = "\<lparr>element_of = next_element s, timeout = None, resolve = Some (length (promises s))\<rparr>"
  have n: "notifications (fst (confirm msg type n s)) = AList.update (JNum n) ?e (notifications s)"
    by (simp add: confirm_def Let_def setTimeout_def update_conv')
  have t: "next_timer (fst (confirm msg type n s)) = Suc (Suc (next_timer s))"
    by (simp add: confirm_def Let_def setTimeout_def update_conv')
  show ?thesis
    unfolding handles_ok_iff n t
  proof (intro allI impI)
    fix k e h
    assume "(k, e) \<in> set (AList.update (JNum n) ?e (notifications s))" and h: "timeout e = Some h"
    then have "(k, e) = (JNum n, ?e) \<or> (k, e) \<in> set (notifications s)"
      using set_update_subset [of "JNum n" ?e "notifications s"] by blast
    then show "h < Suc (Suc (next_timer s))"
    proof
      assume "(k, e) = (JNum n, ?e)"
      then show ?thesis using h by auto
    next
      assume "(k, e) \<in> set (notifications s)"
      then have "h < next_timer s" using ok h by (auto simp: handles_ok_iff)
      then show ?thesis by simp
    qed
  qed
qed

end
